theory Spec2Isabelle
  imports Complex_Main "HOL-Library.AList"
begin

section \<open>Python values\<close>

text \<open>
  A Python \<open>dict\<close> is an association list in insertion order: \<open>map_of\<close> reads a key,
  \<open>AList.update\<close> writes one (in place when the key is present, at the end when it is
  new, as a Python dict does) and \<open>AList.delete\<close> is \<open>del d[k]\<close>.

  Result dictionaries hold loosely typed values. An f-string is kept as the list of its
  parts (\<open>VFmt\<close>), literal text and interpolated values in order; rendering to text is
  not modelled; \<open>VErr e\<close> is the text \<open>str(e)\<close> of a caught exception and \<open>VStatus s\<close>
  a member of \<open>AGVStatus\<close> (how an f-string renders a member depends on the Python
  version).
  \<open>VLoadRef k load\<close> is the \<open>current_load\<close> dict object of the AGV stored under \<open>k\<close>,
  held by reference, with the content \<open>load\<close> it has when the value is read: the fleet is
  the store of these objects, and a value that holds such a reference reads differently
  once the AGV has loaded or unloaded (\<open>refresh_val\<close> below). A Python
  \<open>float\<close> is a rational number: every float is one, and the
  comparisons of an \<open>int\<close> with a \<open>float\<close> that the code makes are exact in Python.
  The restock percentage is computed in double precision (section on Python floats
  below); the battery level is stepped without rounding.
\<close>

datatype py_error = AttributeError | ZeroDivisionError | IndexError | OverflowError

text \<open>The members of the enum \<open>AGVStatus\<close> of simulation/agv.py, and the value of each
  (the enum mixes in \<open>str\<close>).\<close>

datatype agv_status = IDLE | MOVING | LOADING | UNLOADING | CHARGING | MAINTENANCE

fun status_value :: "agv_status \<Rightarrow> string" where
  "status_value IDLE = ''idle''"
| "status_value MOVING = ''moving''"
| "status_value LOADING = ''loading''"
| "status_value UNLOADING = ''unloading''"
| "status_value CHARGING = ''charging''"
| "status_value MAINTENANCE = ''maintenance''"

datatype pyval =
    VNone
  | VBool bool
  | VInt int
  | VNum rat
  | VStr string
  | VErr py_error
  | VStatus agv_status
  | VLoadRef string "(string \<times> int) list"
  | VFmt "pyval list"
  | VList "pyval list"
  | VDict "(string \<times> pyval) list"

type_synonym pydict = "(string \<times> pyval) list"

section \<open>simulation/inventory.py\<close>

text \<open>
  \<open>last_updated\<close> (a wall-clock stamp that no operation reads) and the optional
  snapshot file are left out: persistence is an external collaborator.
\<close>

record inventory_item =
  product_id :: string
  name :: string
  quantity :: int
  location :: string
  min_threshold :: int
  max_capacity :: int

definition needs_restock :: "inventory_item \<Rightarrow> bool" where
  "needs_restock it = (quantity it \<le> min_threshold it)"

definition can_add :: "inventory_item \<Rightarrow> int \<Rightarrow> bool" where
  "can_add it amount = (quantity it + amount \<le> max_capacity it)"

text \<open>\<open>InventoryItem.add\<close> and \<open>InventoryItem.remove\<close>: the returned flag and the item
  as the call leaves it.\<close>

definition item_add :: "inventory_item \<Rightarrow> int \<Rightarrow> bool \<times> inventory_item" where
  "item_add it amount =
     (if \<not> can_add it amount then (False, it)
      else (True, it\<lparr>quantity := quantity it + amount\<rparr>))"

definition item_remove :: "inventory_item \<Rightarrow> int \<Rightarrow> bool \<times> inventory_item" where
  "item_remove it amount =
     (if amount > quantity it then (False, it)
      else (True, it\<lparr>quantity := quantity it - amount\<rparr>))"

text \<open>\<open>InventoryManager.items\<close>: the dict from product id to item.\<close>

type_synonym inventory = "(string \<times> inventory_item) list"

text \<open>
  \<open>InventoryManager.add_item\<close> reads \<open>item.product_id\<close>. The callers pass either an
  \<open>InventoryItem\<close> or (in the AGV planner) a plain dict, which has no such attribute.
\<close>

datatype item_arg = ItemObject inventory_item | DictObject pydict

definition add_item :: "item_arg \<Rightarrow> inventory \<Rightarrow> py_error + inventory" where
  "add_item arg items =
     (case arg of
        ItemObject it \<Rightarrow> Inr (AList.update (product_id it) it items)
      | DictObject d \<Rightarrow> Inl AttributeError)"

definition get_item :: "inventory \<Rightarrow> string \<Rightarrow> inventory_item option" where
  "get_item items pid = map_of items pid"

definition update_quantity :: "string \<Rightarrow> int \<Rightarrow> inventory \<Rightarrow> bool \<times> inventory" where
  "update_quantity pid new_quantity items =
     (case get_item items pid of
        None \<Rightarrow> (False, items)
      | Some it \<Rightarrow>
          if new_quantity < 0 then (False, items)
          else if new_quantity > max_capacity it then (False, items)
          else (True, AList.update pid (it\<lparr>quantity := new_quantity\<rparr>) items))"

definition add_quantity :: "string \<Rightarrow> int \<Rightarrow> inventory \<Rightarrow> bool \<times> inventory" where
  "add_quantity pid amount items =
     (case get_item items pid of
        None \<Rightarrow> (False, items)
      | Some it \<Rightarrow>
          (let (res, it') = item_add it amount
           in (res, AList.update pid it' items)))"

definition remove_quantity :: "string \<Rightarrow> int \<Rightarrow> inventory \<Rightarrow> bool \<times> inventory" where
  "remove_quantity pid amount items =
     (case get_item items pid of
        None \<Rightarrow> (False, items)
      | Some it \<Rightarrow>
          (let (res, it') = item_remove it amount
           in (res, AList.update pid it' items)))"

definition get_items_below_threshold :: "inventory \<Rightarrow> inventory_item list" where
  "get_items_below_threshold items = filter needs_restock (map snd items)"

section \<open>simulation/agv.py\<close>

text \<open>
  An AGV. \<open>current_load\<close> is the dict from product id to the quantity carried;
  \<open>max_capacity\<close> and \<open>battery_level\<close> are floats. The fields \<open>name\<close>, \<open>location\<close> and
  \<open>max_capacity\<close> carry the prefix \<open>agv_\<close> here, since the item record has fields of the
  same names.
\<close>

record agv =
  agv_id :: string
  agv_name :: string
  agv_location :: string
  status :: agv_status
  battery_level :: rat
  agv_max_capacity :: rat
  current_load :: "(string \<times> int) list"

definition is_available :: "agv \<Rightarrow> bool" where
  "is_available a = (status a = IDLE \<and> battery_level a > 20 \<and> current_load a = [])"

text \<open>
  Each method sets a transient status, mutates and resets the status to \<open>IDLE\<close> before
  it returns; the model keeps the state the call leaves.
\<close>

definition move_to :: "agv \<Rightarrow> string \<Rightarrow> agv" where
  "move_to a new_location =
     a\<lparr>agv_location := new_location,
       battery_level := max 0 (battery_level a - 5),
       status := IDLE\<rparr>"

definition load_item :: "agv \<Rightarrow> string \<Rightarrow> int \<Rightarrow> bool \<times> agv" where
  "load_item a pid qty =
     (if status a \<noteq> IDLE then (False, a)
      else
        let current_weight = sum_list (map snd (current_load a))
        in if rat_of_int (current_weight + qty) > agv_max_capacity a then (False, a)
           else
             (True,
              a\<lparr>current_load :=
                   (case map_of (current_load a) pid of
                      Some held \<Rightarrow> AList.update pid (held + qty) (current_load a)
                    | None \<Rightarrow> AList.update pid qty (current_load a)),
                battery_level := max 0 (battery_level a - 2),
                status := IDLE\<rparr>))"

text \<open>\<open>unload_item\<close>: the quantity is optional (\<open>None\<close> unloads the whole line).\<close>

definition unload_item :: "agv \<Rightarrow> string \<Rightarrow> int option \<Rightarrow> (string \<times> int) \<times> agv" where
  "unload_item a pid qty =
     (if status a \<noteq> IDLE then ((pid, 0), a)
      else
        case map_of (current_load a) pid of
          None \<Rightarrow> ((pid, 0), a)
        | Some held \<Rightarrow>
            let (unloaded_quantity, load') =
                  (case qty of
                     None \<Rightarrow> (held, AList.delete pid (current_load a))
                   | Some q \<Rightarrow>
                       if q \<ge> held then (held, AList.delete pid (current_load a))
                       else
                         (q,
                          if held - q = 0 then AList.delete pid (current_load a)
                          else AList.update pid (held - q) (current_load a)))
            in ((pid, unloaded_quantity),
                a\<lparr>current_load := load',
                  battery_level := max 0 (battery_level a - 2),
                  status := IDLE\<rparr>))"

definition charge :: "agv \<Rightarrow> rat \<Rightarrow> agv" where
  "charge a amount =
     a\<lparr>battery_level := min 100 (battery_level a + amount), status := IDLE\<rparr>"

text \<open>\<open>AGVManager.agvs\<close>: the dict from AGV id to AGV.\<close>

type_synonym fleet = "(string \<times> agv) list"

definition get_agv :: "fleet \<Rightarrow> string \<Rightarrow> agv option" where
  "get_agv agvs aid = map_of agvs aid"

text \<open>\<open>get_available_agvs\<close> returns AGV objects: each with the key it is stored under,
  which is its identity in the fleet.\<close>

definition get_available_agvs :: "fleet \<Rightarrow> (string \<times> agv) list" where
  "get_available_agvs agvs = filter (\<lambda>(k, a). is_available a) agvs"

definition move_agv :: "string \<Rightarrow> string \<Rightarrow> fleet \<Rightarrow> bool \<times> fleet" where
  "move_agv aid loc agvs =
     (case get_agv agvs aid of
        None \<Rightarrow> (False, agvs)
      | Some a \<Rightarrow> (True, AList.update aid (move_to a loc) agvs))"

definition load_agv :: "string \<Rightarrow> string \<Rightarrow> int \<Rightarrow> fleet \<Rightarrow> bool \<times> fleet" where
  "load_agv aid pid qty agvs =
     (case get_agv agvs aid of
        None \<Rightarrow> (False, agvs)
      | Some a \<Rightarrow>
          (let (res, a') = load_item a pid qty
           in (res, AList.update aid a' agvs)))"

definition unload_agv :: "string \<Rightarrow> string \<Rightarrow> int option \<Rightarrow> fleet \<Rightarrow> (string \<times> int) \<times> fleet" where
  "unload_agv aid pid qty agvs =
     (case get_agv agvs aid of
        None \<Rightarrow> ((pid, 0), agvs)
      | Some a \<Rightarrow>
          (let (res, a') = unload_item a pid qty
           in (res, AList.update aid a' agvs)))"

definition charge_agv :: "string \<Rightarrow> rat \<Rightarrow> fleet \<Rightarrow> bool \<times> fleet" where
  "charge_agv aid amount agvs =
     (case get_agv agvs aid of
        None \<Rightarrow> (False, agvs)
      | Some a \<Rightarrow> (True, AList.update aid (charge a amount) agvs))"

text \<open>
  A local variable \<open>agv\<close> is an alias of the object the fleet holds under that id: a
  read of \<open>agv.location\<close> or \<open>agv.battery_level\<close> after a manager call sees what the
  call did. No operation removes an AGV from the fleet.
\<close>

definition agv_now :: "fleet \<Rightarrow> string \<Rightarrow> agv \<Rightarrow> agv" where
  "agv_now agvs aid a = (case get_agv agvs aid of Some a' \<Rightarrow> a' | None \<Rightarrow> a)"

section \<open>simulation/order.py\<close>

datatype order_status =
  PENDING | PROCESSING | PICKING | PACKING | SHIPPING | COMPLETED | CANCELLED

text \<open>\<open>OrderStatus(text)\<close>: the member with that value; \<open>None\<close> stands for the
  \<open>ValueError\<close> that the one caller catches.\<close>

definition parse_order_status :: "string \<Rightarrow> order_status option" where
  "parse_order_status s =
     (if s = ''pending'' then Some PENDING
      else if s = ''processing'' then Some PROCESSING
      else if s = ''picking'' then Some PICKING
      else if s = ''packing'' then Some PACKING
      else if s = ''shipping'' then Some SHIPPING
      else if s = ''completed'' then Some COMPLETED
      else if s = ''cancelled'' then Some CANCELLED
      else None)"

record order =
  order_id :: string
  customer_id :: string
  order_items :: "(string \<times> int) list"
  order_status :: order_status
  priority :: int

type_synonym orders = "(string \<times> order) list"

definition update_order_status :: "string \<Rightarrow> order_status \<Rightarrow> orders \<Rightarrow> bool \<times> orders" where
  "update_order_status oid st os =
     (case map_of os oid of
        None \<Rightarrow> (False, os)
      | Some ord \<Rightarrow> (True, AList.update oid (ord\<lparr>order_status := st\<rparr>) os))"

section \<open>Action payloads and results\<close>

text \<open>
  An action is a dict read with \<open>action.get(key)\<close>. The model gives each key the
  handlers read a field of the type they use it at (ids and names are strings,
  quantities ints, the charge amount a float); an absent key is \<open>None\<close>.
\<close>

record product_data =
  pd_product_id :: "string option"
  pd_name :: "string option"
  pd_quantity :: "int option"
  pd_location :: "string option"
  pd_min_threshold :: "int option"
  pd_max_capacity :: "int option"

record action =
  act_type :: "string option"
  act_agent :: "string option"
  act_action :: "string option"
  act_agv_id :: "string option"
  act_product_id :: "string option"
  act_quantity :: "int option"
  act_restock_amount :: "int option"
  act_destination :: "string option"
  act_location :: "string option"
  act_amount :: "rat option"
  act_order_id :: "string option"
  act_status :: "string option"
  act_product_data :: "product_data option"

text \<open>Python truthiness of an optional string: present and not empty.\<close>

fun truthy :: "string option \<Rightarrow> string option" where
  "truthy None = None"
| "truthy (Some []) = None"
| "truthy (Some (c # cs)) = Some (c # cs)"

text \<open>\<open>d.get(key, default)\<close> on an optional field.\<close>

definition get_default :: "'a option \<Rightarrow> 'a \<Rightarrow> 'a" where
  "get_default v d = (case v of None \<Rightarrow> d | Some x \<Rightarrow> x)"

text \<open>The two shapes of result that every handler builds.\<close>

definition failure :: "pyval \<Rightarrow> pydict" where
  "failure msg = [(''success'', VBool False), (''message'', msg)]"

definition success_msg :: "pyval \<Rightarrow> pydict" where
  "success_msg msg = [(''success'', VBool True), (''message'', msg)]"

definition item_to_dict :: "inventory_item \<Rightarrow> pydict" where
  "item_to_dict it =
     [(''product_id'', VStr (product_id it)),
      (''name'', VStr (name it)),
      (''quantity'', VInt (quantity it)),
      (''location'', VStr (location it)),
      (''min_threshold'', VInt (min_threshold it)),
      (''max_capacity'', VInt (max_capacity it))]"

text \<open>\<open>AGV.to_dict\<close> puts the \<open>current_load\<close> dict itself into the result, not a copy of
  it. \<open>k\<close> is the key the AGV is stored under.\<close>

definition agv_to_dict :: "string \<Rightarrow> agv \<Rightarrow> pydict" where
  "agv_to_dict k a =
     [(''agv_id'', VStr (agv_id a)),
      (''name'', VStr (agv_name a)),
      (''location'', VStr (agv_location a)),
      (''status'', VStatus (status a)),
      (''battery_level'', VNum (battery_level a)),
      (''max_capacity'', VNum (agv_max_capacity a)),
      (''current_load'', VLoadRef k (current_load a))]"

section \<open>simulation/warehouse.py\<close>

record stats =
  orders_processed :: int
  items_picked :: int
  items_restocked :: int
  agv_movements :: int

record warehouse =
  inventory_manager :: inventory
  agv_manager :: fleet
  order_manager :: orders
  stats :: stats

definition locations :: "string list" where
  "locations =
     [''receiving'', ''shipping'', ''storage_a'', ''storage_b'', ''storage_c'',
      ''picking_station'', ''packing_station'', ''charging_station'']"

text \<open>A handler: the result dict or the exception raised, and the warehouse it leaves.\<close>

type_synonym outcome = "(py_error + pydict) \<times> warehouse"

definition unknown_action_type :: pydict where
  "unknown_action_type = failure (VStr ''Unknown action type'')"

definition wh_move_agv :: "action \<Rightarrow> warehouse \<Rightarrow> outcome" where
  "wh_move_agv act w =
     (case (truthy (act_agv_id act), truthy (act_location act)) of
        (Some aid, Some loc) \<Rightarrow>
          (let (ok, agvs') = move_agv aid loc (agv_manager w)
           in if ok
              then (Inr (success_msg (VFmt [VStr ''AGV '', VStr aid, VStr '' moved to '', VStr loc])),
                    w\<lparr>agv_manager := agvs',
                      stats := (stats w)\<lparr>agv_movements := agv_movements (stats w) + 1\<rparr>\<rparr>)
              else (Inr (failure (VFmt [VStr ''Failed to move AGV '', VStr aid, VStr '' to '', VStr loc])),
                    w\<lparr>agv_manager := agvs'\<rparr>))
      | _ \<Rightarrow> (Inr unknown_action_type, w))"

text \<open>The \<open>pick_item\<close> branch: debit the ledger, load the AGV, re-add when the load
  fails.\<close>

definition wh_pick_item :: "action \<Rightarrow> warehouse \<Rightarrow> outcome" where
  "wh_pick_item act w =
     (let qty = get_default (act_quantity act) 1 in
      case (truthy (act_agv_id act), truthy (act_product_id act)) of
        (Some aid, Some pid) \<Rightarrow>
          (case get_agv (agv_manager w) aid of
             None \<Rightarrow> (Inr (failure (VFmt [VStr ''AGV '', VStr aid, VStr '' not found''])), w)
           | Some a \<Rightarrow>
              (case get_item (inventory_manager w) pid of
                 None \<Rightarrow> (Inr (failure (VFmt [VStr ''Product '', VStr pid, VStr '' not found''])), w)
               | Some it \<Rightarrow>
                   if agv_location a \<noteq> location it
                   then (Inr (failure (VFmt [VStr ''AGV '', VStr aid,
                            VStr '' is not at the same location as product '', VStr pid])), w)
                   else
                     let (removed, items1) = remove_quantity pid qty (inventory_manager w) in
                     if removed then
                       let (loaded, agvs1) = load_agv aid pid qty (agv_manager w) in
                       if loaded
                       then (Inr (success_msg (VFmt [VStr ''Picked '', VInt qty, VStr '' units of '',
                                VStr pid, VStr '' with AGV '', VStr aid])),
                             w\<lparr>inventory_manager := items1, agv_manager := agvs1,
                               stats := (stats w)\<lparr>items_picked := items_picked (stats w) + qty\<rparr>\<rparr>)
                       else
                         let (readded, items2) = add_quantity pid qty items1 in
                         (Inr (failure (VFmt [VStr ''Failed to load '', VInt qty, VStr '' units of '',
                             VStr pid, VStr '' onto AGV '', VStr aid])),
                          w\<lparr>inventory_manager := items2, agv_manager := agvs1\<rparr>)
                     else
                       (Inr (failure (VFmt [VStr ''Not enough inventory of '', VStr pid,
                           VStr '' to pick '', VInt qty, VStr '' units''])),
                        w\<lparr>inventory_manager := items1\<rparr>)))
      | _ \<Rightarrow> (Inr unknown_action_type, w))"

text \<open>The \<open>restock_item\<close> branch: unload the AGV, credit the ledger, re-load when the
  credit fails.\<close>

definition wh_restock_item :: "action \<Rightarrow> warehouse \<Rightarrow> outcome" where
  "wh_restock_item act w =
     (let qty = get_default (act_quantity act) 1 in
      case (truthy (act_agv_id act), truthy (act_product_id act)) of
        (Some aid, Some pid) \<Rightarrow>
          (case get_agv (agv_manager w) aid of
             None \<Rightarrow> (Inr (failure (VFmt [VStr ''AGV '', VStr aid, VStr '' not found''])), w)
           | Some a \<Rightarrow>
              (case get_item (inventory_manager w) pid of
                 None \<Rightarrow> (Inr (failure (VFmt [VStr ''Product '', VStr pid, VStr '' not found''])), w)
               | Some it \<Rightarrow>
                   if agv_location a \<noteq> location it
                   then (Inr (failure (VFmt [VStr ''AGV '', VStr aid,
                            VStr '' is not at the same location as product '', VStr pid])), w)
                   else
                     let ((pid', unloaded), agvs1) = unload_agv aid pid (Some qty) (agv_manager w) in
                     if unloaded > 0 then
                       let (added, items1) = add_quantity pid' unloaded (inventory_manager w) in
                       if added
                       then (Inr (success_msg (VFmt [VStr ''Restocked '', VInt unloaded,
                                VStr '' units of '', VStr pid', VStr '' from AGV '', VStr aid])),
                             w\<lparr>inventory_manager := items1, agv_manager := agvs1,
                               stats := (stats w)\<lparr>items_restocked := items_restocked (stats w) + unloaded\<rparr>\<rparr>)
                       else
                         let (reloaded, agvs2) = load_agv aid pid' unloaded agvs1 in
                         (Inr (failure (VFmt [VStr ''Failed to restock '', VInt unloaded,
                             VStr '' units of '', VStr pid', VStr '' to inventory''])),
                          w\<lparr>inventory_manager := items1, agv_manager := agvs2\<rparr>)
                     else
                       (Inr (failure (VFmt [VStr ''No '', VStr pid', VStr '' available on AGV '',
                           VStr aid, VStr '' to restock''])),
                        w\<lparr>agv_manager := agvs1\<rparr>)))
      | _ \<Rightarrow> (Inr unknown_action_type, w))"

definition wh_process_order :: "action \<Rightarrow> warehouse \<Rightarrow> outcome" where
  "wh_process_order act w =
     (case (truthy (act_order_id act), truthy (act_status act)) of
        (Some oid, Some new_status) \<Rightarrow>
          (case parse_order_status new_status of
             None \<Rightarrow> (Inr (failure (VFmt [VStr ''Invalid order status: '', VStr new_status])), w)
           | Some st \<Rightarrow>
               let (ok, os') = update_order_status oid st (order_manager w) in
               if ok
               then (Inr (success_msg (VFmt [VStr ''Updated order '', VStr oid,
                        VStr '' status to '', VStr new_status])),
                     w\<lparr>order_manager := os',
                       stats := (if st = COMPLETED
                                 then (stats w)\<lparr>orders_processed := orders_processed (stats w) + 1\<rparr>
                                 else stats w)\<rparr>)
               else (Inr (failure (VFmt [VStr ''Failed to update order '', VStr oid, VStr '' status''])),
                     w\<lparr>order_manager := os'\<rparr>))
      | _ \<Rightarrow> (Inr unknown_action_type, w))"

definition wh_charge_agv :: "action \<Rightarrow> warehouse \<Rightarrow> outcome" where
  "wh_charge_agv act w =
     (let amount = get_default (act_amount act) 100 in
      case truthy (act_agv_id act) of
        Some aid \<Rightarrow>
          (case get_agv (agv_manager w) aid of
             None \<Rightarrow> (Inr (failure (VFmt [VStr ''AGV '', VStr aid, VStr '' not found''])), w)
           | Some a \<Rightarrow>
               if agv_location a \<noteq> ''charging_station''
               then (Inr (failure (VFmt [VStr ''AGV '', VStr aid,
                        VStr '' is not at a charging station''])), w)
               else
                 let (ok, agvs') = charge_agv aid amount (agv_manager w) in
                 if ok
                 then (Inr (success_msg (VFmt [VStr ''Charged AGV '', VStr aid, VStr '' to '',
                          VNum (battery_level (agv_now agvs' aid a)), VStr ''%''])),
                       w\<lparr>agv_manager := agvs'\<rparr>)
                 else (Inr (failure (VFmt [VStr ''Failed to charge AGV '', VStr aid])),
                       w\<lparr>agv_manager := agvs'\<rparr>))
      | None \<Rightarrow> (Inr unknown_action_type, w))"

text \<open>\<open>Warehouse.process_action\<close> branches on the action's \<open>type\<close>.\<close>

definition process_action :: "action \<Rightarrow> warehouse \<Rightarrow> outcome" where
  "process_action act w =
     (if act_type act = Some ''move_agv'' then wh_move_agv act w
      else if act_type act = Some ''pick_item'' then wh_pick_item act w
      else if act_type act = Some ''restock_item'' then wh_restock_item act w
      else if act_type act = Some ''process_order'' then wh_process_order act w
      else if act_type act = Some ''charge_agv'' then wh_charge_agv act w
      else (Inr unknown_action_type, w))"

section \<open>agents/inventory_manager.py\<close>

text \<open>\<open>str(None)\<close> when an absent action name is interpolated.\<close>

definition name_or_none :: "string option \<Rightarrow> pyval" where
  "name_or_none v = (case v of None \<Rightarrow> VNone | Some s \<Rightarrow> VStr s)"

definition inv_check_inventory :: "action \<Rightarrow> warehouse \<Rightarrow> outcome" where
  "inv_check_inventory act w =
     (case truthy (act_product_id act) of
        Some pid \<Rightarrow>
          (case get_item (inventory_manager w) pid of
             Some it \<Rightarrow>
               (Inr [(''success'', VBool True), (''product_id'', VStr pid),
                     (''quantity'', VInt (quantity it)), (''location'', VStr (location it)),
                     (''needs_restock'', VBool (needs_restock it))], w)
           | None \<Rightarrow> (Inr (failure (VFmt [VStr ''Product '', VStr pid, VStr '' not found''])), w))
      | None \<Rightarrow> (Inr (failure (VStr ''No product_id provided'')), w))"

definition inv_update_inventory :: "action \<Rightarrow> warehouse \<Rightarrow> outcome" where
  "inv_update_inventory act w =
     (case (act_product_id act, act_quantity act) of
        (Some pid, Some qty) \<Rightarrow>
          (let (ok, items') = update_quantity pid qty (inventory_manager w) in
           if ok
           then (Inr [(''success'', VBool True), (''product_id'', VStr pid),
                      (''new_quantity'', VInt qty)], w\<lparr>inventory_manager := items'\<rparr>)
           else (Inr (failure (VFmt [VStr ''Failed to update inventory for '', VStr pid])),
                 w\<lparr>inventory_manager := items'\<rparr>))
      | _ \<Rightarrow> (Inr (failure (VStr ''Missing product_id or quantity'')), w))"

text \<open>\<open>get_item(product_id).quantity\<close>: an attribute read on what \<open>get_item\<close> returns.\<close>

definition quantity_of :: "inventory \<Rightarrow> string \<Rightarrow> py_error + int" where
  "quantity_of items pid =
     (case get_item items pid of None \<Rightarrow> Inl AttributeError | Some it \<Rightarrow> Inr (quantity it))"

definition inv_add_inventory :: "action \<Rightarrow> warehouse \<Rightarrow> outcome" where
  "inv_add_inventory act w =
     (let qty = get_default (act_quantity act) 0 in
      case truthy (act_product_id act) of
        Some pid \<Rightarrow>
          if qty > 0 then
            (let (ok, items') = add_quantity pid qty (inventory_manager w) in
             if ok
             then (case quantity_of items' pid of
                     Inl e \<Rightarrow> (Inl e, w\<lparr>inventory_manager := items'\<rparr>)
                   | Inr new_quantity \<Rightarrow>
                       (Inr [(''success'', VBool True), (''product_id'', VStr pid),
                             (''added_quantity'', VInt qty),
                             (''new_quantity'', VInt new_quantity)],
                        w\<lparr>inventory_manager := items'\<rparr>))
             else (Inr (failure (VFmt [VStr ''Failed to add '', VInt qty,
                       VStr '' units to inventory for '', VStr pid])),
                   w\<lparr>inventory_manager := items'\<rparr>))
          else (Inr (failure (VStr ''Invalid product_id or quantity'')), w)
      | None \<Rightarrow> (Inr (failure (VStr ''Invalid product_id or quantity'')), w))"

definition inv_remove_inventory :: "action \<Rightarrow> warehouse \<Rightarrow> outcome" where
  "inv_remove_inventory act w =
     (let qty = get_default (act_quantity act) 0 in
      case truthy (act_product_id act) of
        Some pid \<Rightarrow>
          if qty > 0 then
            (let (ok, items') = remove_quantity pid qty (inventory_manager w) in
             if ok
             then (case quantity_of items' pid of
                     Inl e \<Rightarrow> (Inl e, w\<lparr>inventory_manager := items'\<rparr>)
                   | Inr new_quantity \<Rightarrow>
                       (Inr [(''success'', VBool True), (''product_id'', VStr pid),
                             (''removed_quantity'', VInt qty),
                             (''new_quantity'', VInt new_quantity)],
                        w\<lparr>inventory_manager := items'\<rparr>))
             else (Inr (failure (VFmt [VStr ''Failed to remove '', VInt qty,
                       VStr '' units from inventory for '', VStr pid])),
                   w\<lparr>inventory_manager := items'\<rparr>))
          else (Inr (failure (VStr ''Invalid product_id or quantity'')), w)
      | None \<Rightarrow> (Inr (failure (VStr ''Invalid product_id or quantity'')), w))"

text \<open>\<open>add_new_product\<close>: the product data needs the keys \<open>product_id\<close> and \<open>name\<close>; the
  other fields have defaults. An exception inside the \<open>try\<close> is caught and reported.\<close>

definition inv_add_new_product :: "action \<Rightarrow> warehouse \<Rightarrow> outcome" where
  "inv_add_new_product act w =
     (case act_product_data act of
        Some pd \<Rightarrow>
          (case (pd_product_id pd, pd_name pd) of
             (Some pid, Some nm) \<Rightarrow>
               (let new_item = \<lparr>product_id = pid, name = nm,
                                 quantity = get_default (pd_quantity pd) 0,
                                 location = get_default (pd_location pd) ''storage_a'',
                                 min_threshold = get_default (pd_min_threshold pd) 5,
                                 max_capacity = get_default (pd_max_capacity pd) 100\<rparr>
                in case add_item (ItemObject new_item) (inventory_manager w) of
                     Inr items' \<Rightarrow>
                       (Inr [(''success'', VBool True), (''product'', VDict (item_to_dict new_item))],
                        w\<lparr>inventory_manager := items'\<rparr>)
                   | Inl e \<Rightarrow>
                       (Inr (failure (VFmt [VStr ''Error adding new product: '', VErr e])), w))
           | _ \<Rightarrow> (Inr (failure (VStr ''Invalid product data'')), w))
      | None \<Rightarrow> (Inr (failure (VStr ''Invalid product data'')), w))"

definition inventory_agent_execute_action :: "action \<Rightarrow> warehouse \<Rightarrow> outcome" where
  "inventory_agent_execute_action act w =
     (if act_action act = Some ''check_inventory'' then inv_check_inventory act w
      else if act_action act = Some ''update_inventory'' then inv_update_inventory act w
      else if act_action act = Some ''add_inventory'' then inv_add_inventory act w
      else if act_action act = Some ''remove_inventory'' then inv_remove_inventory act w
      else if act_action act = Some ''add_new_product'' then inv_add_new_product act w
      else (Inr (failure (VFmt [VStr ''Unknown action type: '', name_or_none (act_action act)])), w))"

section \<open>agents/agv_planner.py\<close>

definition plan_route :: "fleet \<Rightarrow> string \<Rightarrow> string \<Rightarrow> string list" where
  "plan_route agvs aid destination =
     (case get_agv agvs aid of None \<Rightarrow> [] | Some a \<Rightarrow> [agv_location a, destination])"

definition not_idle_msg :: "string \<Rightarrow> agv \<Rightarrow> pyval" where
  "not_idle_msg aid a =
     VFmt [VStr ''AGV '', VStr aid, VStr '' is not idle (current status: '',
           VStatus (status a), VStr '')'']"

definition agv_move_agv :: "action \<Rightarrow> warehouse \<Rightarrow> outcome" where
  "agv_move_agv act w =
     (case (truthy (act_agv_id act), truthy (act_destination act)) of
        (Some aid, Some destination) \<Rightarrow>
          (case get_agv (agv_manager w) aid of
             None \<Rightarrow> (Inr (failure (VFmt [VStr ''AGV '', VStr aid, VStr '' not found''])), w)
           | Some a \<Rightarrow>
               if status a \<noteq> IDLE then (Inr (failure (not_idle_msg aid a)), w)
               else if destination \<notin> set locations
               then (Inr (failure (VFmt [VStr ''Invalid destination: '', VStr destination])), w)
               else
                 let route = plan_route (agv_manager w) aid destination;
                     (ok, agvs') = move_agv aid destination (agv_manager w)
                 in if ok
                    then (case route of
                            [] \<Rightarrow> (Inl IndexError, w\<lparr>agv_manager := agvs'\<rparr>)
                          | from_location # _ \<Rightarrow>
                              (Inr [(''success'', VBool True), (''agv_id'', VStr aid),
                                    (''from_location'', VStr from_location),
                                    (''to_location'', VStr destination),
                                    (''route'', VList (map VStr route))],
                               w\<lparr>agv_manager := agvs'\<rparr>))
                    else (Inr (failure (VFmt [VStr ''Failed to move AGV '', VStr aid,
                              VStr '' to '', VStr destination])),
                          w\<lparr>agv_manager := agvs'\<rparr>))
      | _ \<Rightarrow> (Inr (failure (VStr ''Missing agv_id or destination'')), w))"

definition agv_charge_agv :: "action \<Rightarrow> warehouse \<Rightarrow> outcome" where
  "agv_charge_agv act w =
     (let amount = get_default (act_amount act) 100 in
      case truthy (act_agv_id act) of
        Some aid \<Rightarrow>
          (case get_agv (agv_manager w) aid of
             None \<Rightarrow> (Inr (failure (VFmt [VStr ''AGV '', VStr aid, VStr '' not found''])), w)
           | Some a \<Rightarrow>
               let (moved, agvs1) =
                     (if agv_location a \<noteq> ''charging_station''
                      then move_agv aid ''charging_station'' (agv_manager w)
                      else (True, agv_manager w))
               in if \<not> moved
                  then (Inr (failure (VFmt [VStr ''Failed to move AGV '', VStr aid,
                            VStr '' to charging station''])),
                        w\<lparr>agv_manager := agvs1\<rparr>)
                  else
                    let (ok, agvs2) = charge_agv aid amount agvs1 in
                    if ok
                    then (Inr [(''success'', VBool True), (''agv_id'', VStr aid),
                               (''new_battery_level'', VNum (battery_level (agv_now agvs2 aid a)))],
                          w\<lparr>agv_manager := agvs2\<rparr>)
                    else (Inr (failure (VFmt [VStr ''Failed to charge AGV '', VStr aid])),
                          w\<lparr>agv_manager := agvs2\<rparr>))
      | None \<Rightarrow> (Inr (failure (VStr ''Missing agv_id'')), w))"

text \<open>
  The \<open>load_agv\<close> branch. The AGV is first moved to the item when it stands elsewhere;
  then the quantity is taken from the ledger, then loaded, and put back into the ledger
  when the load fails. \<open>agv.location\<close> in the result is read after the move.
\<close>

definition agv_load_agv :: "action \<Rightarrow> warehouse \<Rightarrow> outcome" where
  "agv_load_agv act w =
     (let qty = get_default (act_quantity act) 1 in
      case (truthy (act_agv_id act), truthy (act_product_id act)) of
        (Some aid, Some pid) \<Rightarrow>
          if qty > 0 then
            (case get_agv (agv_manager w) aid of
               None \<Rightarrow> (Inr (failure (VFmt [VStr ''AGV '', VStr aid, VStr '' not found''])), w)
             | Some a \<Rightarrow>
                (case get_item (inventory_manager w) pid of
                   None \<Rightarrow> (Inr (failure (VFmt [VStr ''Product '', VStr pid, VStr '' not found''])), w)
                 | Some it \<Rightarrow>
                     let (moved, agvs1) =
                           (if agv_location a \<noteq> location it
                            then move_agv aid (location it) (agv_manager w)
                            else (True, agv_manager w))
                     in if \<not> moved
                        then (Inr (failure (VFmt [VStr ''Failed to move AGV '', VStr aid,
                                  VStr '' to '', VStr (location it)])),
                              w\<lparr>agv_manager := agvs1\<rparr>)
                        else if quantity it < qty
                        then (Inr (failure (VFmt [VStr ''Not enough inventory of '', VStr pid,
                                  VStr '' (requested: '', VInt qty, VStr '', available: '',
                                  VInt (quantity it), VStr '')''])),
                              w\<lparr>agv_manager := agvs1\<rparr>)
                        else
                          let (removed, items1) = remove_quantity pid qty (inventory_manager w) in
                          if \<not> removed
                          then (Inr (failure (VFmt [VStr ''Failed to remove '', VInt qty,
                                    VStr '' units of '', VStr pid, VStr '' from inventory''])),
                                w\<lparr>inventory_manager := items1, agv_manager := agvs1\<rparr>)
                          else
                            let (loaded, agvs2) = load_agv aid pid qty agvs1 in
                            if loaded
                            then (Inr [(''success'', VBool True), (''agv_id'', VStr aid),
                                       (''product_id'', VStr pid), (''quantity'', VInt qty),
                                       (''location'', VStr (agv_location (agv_now agvs2 aid a)))],
                                  w\<lparr>inventory_manager := items1, agv_manager := agvs2\<rparr>)
                            else
                              let (readded, items2) = add_quantity pid qty items1 in
                              (Inr (failure (VFmt [VStr ''Failed to load '', VInt qty,
                                  VStr '' units of '', VStr pid, VStr '' onto AGV '', VStr aid])),
                               w\<lparr>inventory_manager := items2, agv_manager := agvs2\<rparr>)))
          else (Inr (failure (VStr ''Invalid parameters for load_agv action'')), w)
      | _ \<Rightarrow> (Inr (failure (VStr ''Invalid parameters for load_agv action'')), w))"

text \<open>
  The \<open>unload_agv\<close> branch. With a ledger entry the unloaded quantity is credited, and
  loaded back onto the AGV when the credit fails. Without one the code passes a dict
  literal to \<open>add_item\<close>.
\<close>

definition agv_unload_agv :: "action \<Rightarrow> warehouse \<Rightarrow> outcome" where
  "agv_unload_agv act w =
     (case (truthy (act_agv_id act), truthy (act_product_id act)) of
        (Some aid, Some pid) \<Rightarrow>
          (case get_agv (agv_manager w) aid of
             None \<Rightarrow> (Inr (failure (VFmt [VStr ''AGV '', VStr aid, VStr '' not found''])), w)
           | Some a \<Rightarrow>
               if map_of (current_load a) pid = None
               then (Inr (failure (VFmt [VStr ''AGV '', VStr aid,
                         VStr '' does not have product '', VStr pid])), w)
               else
                 let ((unloaded_product, unloaded_quantity), agvs1) =
                       unload_agv aid pid (act_quantity act) (agv_manager w)
                 in if unloaded_quantity > 0 then
                      (let a1 = agv_now agvs1 aid a in
                          (case get_item (inventory_manager w) pid of
                             Some it \<Rightarrow>
                               let (added, items1) = add_quantity pid unloaded_quantity (inventory_manager w) in
                               if added
                               then (Inr [(''success'', VBool True), (''agv_id'', VStr aid),
                                          (''product_id'', VStr pid),
                                          (''quantity'', VInt unloaded_quantity),
                                          (''location'', VStr (agv_location a1))],
                                     w\<lparr>inventory_manager := items1, agv_manager := agvs1\<rparr>)
                               else
                                 let (reloaded, agvs2) = load_agv aid pid unloaded_quantity agvs1 in
                                 (Inr (failure (VFmt [VStr ''Failed to add '', VInt unloaded_quantity,
                                     VStr '' units of '', VStr pid, VStr '' to inventory''])),
                                  w\<lparr>inventory_manager := items1, agv_manager := agvs2\<rparr>)
                           | None \<Rightarrow>
                               (case add_item
                                       (DictObject
                                          [(''product_id'', VStr pid),
                                           (''name'', VFmt [VStr ''Product '', VStr pid]),
                                           (''quantity'', VInt unloaded_quantity),
                                           (''location'', VStr (agv_location a1)),
                                           (''min_threshold'', VInt 5),
                                           (''max_capacity'', VInt 100)])
                                       (inventory_manager w) of
                                  Inl e \<Rightarrow> (Inl e, w\<lparr>agv_manager := agvs1\<rparr>)
                                | Inr items1 \<Rightarrow>
                                    (Inr [(''success'', VBool True), (''agv_id'', VStr aid),
                                          (''product_id'', VStr pid),
                                          (''quantity'', VInt unloaded_quantity),
                                          (''location'', VStr (agv_location a1)),
                                          (''new_inventory_item'', VBool True)],
                                     w\<lparr>inventory_manager := items1, agv_manager := agvs1\<rparr>))))
                    else (Inr (failure (VFmt [VStr ''Failed to unload '', VStr pid,
                              VStr '' from AGV '', VStr aid])),
                          w\<lparr>agv_manager := agvs1\<rparr>))
      | _ \<Rightarrow> (Inr (failure (VStr ''Missing agv_id or product_id'')), w))"

definition agv_get_available_agvs :: "action \<Rightarrow> warehouse \<Rightarrow> outcome" where
  "agv_get_available_agvs act w =
     (Inr [(''success'', VBool True),
           (''available_agvs'', VList (map (\<lambda>(k, a). VDict (agv_to_dict k a)) (get_available_agvs (agv_manager w))))],
      w)"

definition agv_planner_execute_action :: "action \<Rightarrow> warehouse \<Rightarrow> outcome" where
  "agv_planner_execute_action act w =
     (if act_action act = Some ''move_agv'' then agv_move_agv act w
      else if act_action act = Some ''charge_agv'' then agv_charge_agv act w
      else if act_action act = Some ''load_agv'' then agv_load_agv act w
      else if act_action act = Some ''unload_agv'' then agv_unload_agv act w
      else if act_action act = Some ''get_available_agvs'' then agv_get_available_agvs act w
      else (Inr (failure (VFmt [VStr ''Unknown action type: '', name_or_none (act_action act)])), w))"

section \<open>agents/restock_agent.py\<close>

text \<open>
  Python floats are IEEE 754 doubles. A finite double is a rational \<open>m * 2 ^ e\<close> with
  \<open>\<bar>m\<bar> < 2 ^ 53\<close> and \<open>e \<ge> - 1074\<close>, of magnitude below \<open>2 ^ 1024\<close>. \<open>to_double\<close> rounds
  a rational to the nearest such value, ties to the even significand, as the division
  of two ints and the product of two floats do; a rounded magnitude of \<open>2 ^ 1024\<close> or
  more is an overflow.
\<close>

text \<open>The number of binary digits of a positive int.\<close>

function bit_length :: "int \<Rightarrow> int" where
  "bit_length k = (if k \<le> 0 then 0 else 1 + bit_length (k div 2))"
  by auto
termination
  by (relation "measure nat") auto

declare bit_length.simps [simp del]

text \<open>The powers of two, by repeated squaring.\<close>

function pow2_pos :: "int \<Rightarrow> rat" where
  "pow2_pos e =
     (if e \<le> 0 then 1
      else (if e mod 2 = 0 then 1 else 2) * (pow2_pos (e div 2) * pow2_pos (e div 2)))"
  by auto
termination
  by (relation "measure nat") auto

declare pow2_pos.simps [simp del]

definition pow2 :: "int \<Rightarrow> rat" where
  "pow2 e = (if 0 \<le> e then pow2_pos e else 1 / pow2_pos (- e))"

text \<open>For \<open>x > 0\<close>, the \<open>k\<close> with \<open>2 ^ k \<le> x < 2 ^ (k + 1)\<close>: the difference of the bit
  lengths of numerator and denominator, or one less.\<close>

definition floor_log2 :: "rat \<Rightarrow> int" where
  "floor_log2 x =
     (let (a, b) = quotient_of x;
          k = bit_length a - bit_length b
      in if pow2 k \<le> x then k else k - 1)"

definition round_half_even :: "rat \<Rightarrow> int" where
  "round_half_even y =
     (let f = \<lfloor>y\<rfloor>; d = y - rat_of_int f
      in if d < 1 / 2 then f
         else if 1 / 2 < d then f + 1
         else if f mod 2 = 0 then f else f + 1)"

text \<open>The spacing of the doubles around \<open>x\<close> is \<open>2 ^ (floor_log2 \<bar>x\<bar> - 52)\<close>, and
  \<open>2 ^ (- 1074)\<close> in the subnormal range.\<close>

definition to_double :: "rat \<Rightarrow> rat" where
  "to_double x =
     (if x = 0 then 0
      else let e = max (floor_log2 \<bar>x\<bar> - 52) (- 1074)
           in rat_of_int (round_half_even (x / pow2 e)) * pow2 e)"

text \<open>\<open>2 ^ 1024\<close>, written out.\<close>

definition double_limit :: rat where
  "double_limit = 179769313486231590772930519078902473361797697894230657273430081157732675805500963132708477322407536021120113879871393357658789768814416622492847430639474124377767893424865485276302219601246094119453082952085005768838150682342462881473913110540827237163350510684586298239947245938479716304835356329624224137216"

definition double_overflows :: "rat \<Rightarrow> bool" where
  "double_overflows x = (double_limit \<le> \<bar>x\<bar>)"

text \<open>\<open>a / b\<close> on two ints: the correctly rounded quotient; it raises on a zero divisor
  and on a quotient too large for a float.\<close>

definition true_divide :: "int \<Rightarrow> int \<Rightarrow> py_error + rat" where
  "true_divide a b =
     (if b = 0 then Inl ZeroDivisionError
      else let d = to_double (rat_of_int a / rat_of_int b)
           in if double_overflows d then Inl OverflowError else Inr d)"

text \<open>\<open>x * y\<close> on two floats: the correctly rounded product; \<open>None\<close> is an infinity.\<close>

definition float_mul :: "rat \<Rightarrow> rat \<Rightarrow> rat option" where
  "float_mul x y =
     (let p = to_double (x * y) in if double_overflows p then None else Some p)"

text \<open>\<open>int(x)\<close> on a float truncates toward zero, and raises on an infinity.\<close>

definition py_int :: "rat \<Rightarrow> int" where
  "py_int x = (if x < 0 then \<lceil>x\<rceil> else \<lfloor>x\<rfloor>)"

definition int_of_float :: "rat option \<Rightarrow> py_error + int" where
  "int_of_float x = (case x of None \<Rightarrow> Inl OverflowError | Some v \<Rightarrow> Inr (py_int v))"

text \<open>\<open>_calculate_restock_priority\<close>: the division of two ints, the product with the int
  10 (converted to the float 10.0) and the truncation.\<close>

definition calculate_restock_priority :: "inventory_item \<Rightarrow> py_error + int" where
  "calculate_restock_priority it =
     (if quantity it = 0 then Inr 10
      else
        case true_divide (min_threshold it - quantity it) (min_threshold it) of
          Inl e \<Rightarrow> Inl e
        | Inr threshold_percentage \<Rightarrow>
            (case int_of_float (float_mul threshold_percentage 10) of
               Inl e \<Rightarrow> Inl e
             | Inr n \<Rightarrow> Inr (min 9 (max 1 n))))"

text \<open>The first exception of a list of computations, or all their values in order.\<close>

fun sequence_results :: "(py_error + 'a) list \<Rightarrow> py_error + 'a list" where
  "sequence_results [] = Inr []"
| "sequence_results (x # xs) =
     (case x of
        Inl e \<Rightarrow> Inl e
      | Inr v \<Rightarrow> (case sequence_results xs of Inl e \<Rightarrow> Inl e | Inr vs \<Rightarrow> Inr (v # vs)))"

definition restock_need :: "inventory_item \<Rightarrow> py_error + (int \<times> pydict)" where
  "restock_need it =
     (case calculate_restock_priority it of
        Inl e \<Rightarrow> Inl e
      | Inr p \<Rightarrow>
          Inr (p,
               [(''product_id'', VStr (product_id it)),
                (''name'', VStr (name it)),
                (''current_quantity'', VInt (quantity it)),
                (''min_threshold'', VInt (min_threshold it)),
                (''restock_amount'', VInt (max_capacity it - quantity it)),
                (''location'', VStr (location it)),
                (''priority'', VInt p)]))"

text \<open>\<open>get_restock_needs\<close>: \<open>sort(key=priority, reverse=True)\<close> is a stable sort by
  descending priority.\<close>

definition get_restock_needs :: "inventory \<Rightarrow> py_error + pydict list" where
  "get_restock_needs items =
     (case sequence_results (map restock_need (get_items_below_threshold items)) of
        Inl e \<Rightarrow> Inl e
      | Inr needs \<Rightarrow> Inr (map snd (sort_key (\<lambda>(p, d). - p) needs)))"

text \<open>\<open>plan_restock_operation\<close>, with the warehouse it leaves.\<close>

definition plan_restock_operation :: "string \<Rightarrow> warehouse \<Rightarrow> pydict \<times> warehouse" where
  "plan_restock_operation pid w =
     (case get_item (inventory_manager w) pid of
        None \<Rightarrow> (failure (VFmt [VStr ''Product '', VStr pid, VStr '' not found'']), w)
      | Some it \<Rightarrow>
          if \<not> needs_restock it
          then ([(''success'', VBool True),
                 (''message'', VFmt [VStr ''Product '', VStr pid, VStr '' does not need restocking'']),
                 (''restock_needed'', VBool False)], w)
          else
            (case get_available_agvs (agv_manager w) of
               [] \<Rightarrow> (failure (VStr ''No available AGVs for restocking''), w)
             | (k, selected_agv) # _ \<Rightarrow>
                 let restock_amount = max_capacity it - quantity it in
                 ([(''success'', VBool True),
                   (''restock_needed'', VBool True),
                   (''product_id'', VStr pid),
                   (''product_name'', VStr (name it)),
                   (''current_quantity'', VInt (quantity it)),
                   (''restock_amount'', VInt restock_amount),
                   (''location'', VStr (location it)),
                   (''agv_id'', VStr (agv_id selected_agv)),
                   (''agv_name'', VStr (agv_name selected_agv)),
                   (''agv_location'', VStr (agv_location selected_agv)),
                   (''steps'', VList
                      [VDict [(''step'', VStr ''move_agv_to_receiving''),
                              (''agv_id'', VStr (agv_id selected_agv)),
                              (''destination'', VStr ''receiving'')],
                       VDict [(''step'', VStr ''load_inventory''),
                              (''agv_id'', VStr (agv_id selected_agv)),
                              (''product_id'', VStr pid),
                              (''quantity'', VInt restock_amount)],
                       VDict [(''step'', VStr ''move_agv_to_storage''),
                              (''agv_id'', VStr (agv_id selected_agv)),
                              (''destination'', VStr (location it))],
                       VDict [(''step'', VStr ''unload_inventory''),
                              (''agv_id'', VStr (agv_id selected_agv)),
                              (''product_id'', VStr pid),
                              (''quantity'', VInt restock_amount)]])], w)))"

definition rs_get_restock_needs :: "action \<Rightarrow> warehouse \<Rightarrow> outcome" where
  "rs_get_restock_needs act w =
     (case get_restock_needs (inventory_manager w) of
        Inl e \<Rightarrow> (Inl e, w)
      | Inr needs \<Rightarrow>
          (Inr [(''success'', VBool True), (''restock_needs'', VList (map VDict needs))], w))"

definition rs_plan_restock :: "action \<Rightarrow> warehouse \<Rightarrow> outcome" where
  "rs_plan_restock act w =
     (case truthy (act_product_id act) of
        Some pid \<Rightarrow> (let (plan, w') = plan_restock_operation pid w in (Inr plan, w'))
      | None \<Rightarrow> (Inr (failure (VStr ''No product_id provided'')), w))"

text \<open>Python truthiness of an optional int: present and not zero.\<close>

fun truthy_int :: "int option \<Rightarrow> int option" where
  "truthy_int None = None"
| "truthy_int (Some n) = (if n = 0 then None else Some n)"

text \<open>
  The \<open>execute_restock\<close> branch: move to receiving, load, move to the item, unload, then
  credit the ledger with what was unloaded.
\<close>

definition rs_execute_restock :: "action \<Rightarrow> warehouse \<Rightarrow> outcome" where
  "rs_execute_restock act w =
     (case (truthy (act_product_id act), truthy (act_agv_id act), truthy_int (act_restock_amount act)) of
        (Some pid, Some aid, Some restock_amount) \<Rightarrow>
          (case get_item (inventory_manager w) pid of
             None \<Rightarrow> (Inr (failure (VFmt [VStr ''Product '', VStr pid, VStr '' not found''])), w)
           | Some it \<Rightarrow>
              (case get_agv (agv_manager w) aid of
                 None \<Rightarrow> (Inr (failure (VFmt [VStr ''AGV '', VStr aid, VStr '' not found''])), w)
               | Some a \<Rightarrow>
                   if status a \<noteq> IDLE then (Inr (failure (not_idle_msg aid a)), w)
                   else
                     let (move_to_receiving, agvs1) = move_agv aid ''receiving'' (agv_manager w) in
                     if \<not> move_to_receiving
                     then (Inr (failure (VFmt [VStr ''Failed to move AGV '', VStr aid,
                               VStr '' to receiving''])),
                           w\<lparr>agv_manager := agvs1\<rparr>)
                     else
                       let (load_success, agvs2) = load_agv aid pid restock_amount agvs1 in
                       if \<not> load_success
                       then (Inr (failure (VFmt [VStr ''Failed to load '', VInt restock_amount,
                                 VStr '' units of '', VStr pid, VStr '' onto AGV '', VStr aid])),
                             w\<lparr>agv_manager := agvs2\<rparr>)
                       else
                         let (move_to_storage, agvs3) = move_agv aid (location it) agvs2 in
                         if \<not> move_to_storage
                         then (Inr (failure (VFmt [VStr ''Failed to move AGV '', VStr aid,
                                   VStr '' to '', VStr (location it)])),
                               w\<lparr>agv_manager := agvs3\<rparr>)
                         else
                           let ((unloaded_product, unloaded_quantity), agvs4) =
                                 unload_agv aid pid (Some restock_amount) agvs3
                           in if unloaded_quantity > 0 then
                                let (add_success, items1) =
                                      add_quantity pid unloaded_quantity (inventory_manager w)
                                in if add_success
                                   then (case quantity_of items1 pid of
                                           Inl e \<Rightarrow> (Inl e, w\<lparr>inventory_manager := items1, agv_manager := agvs4\<rparr>)
                                         | Inr new_quantity \<Rightarrow>
                                             (Inr [(''success'', VBool True),
                                                   (''product_id'', VStr pid),
                                                   (''restocked_quantity'', VInt unloaded_quantity),
                                                   (''new_quantity'', VInt new_quantity),
                                                   (''agv_id'', VStr aid)],
                                              w\<lparr>inventory_manager := items1, agv_manager := agvs4\<rparr>))
                                   else (Inr (failure (VFmt [VStr ''Failed to add '',
                                             VInt unloaded_quantity, VStr '' units of '', VStr pid,
                                             VStr '' to inventory''])),
                                         w\<lparr>inventory_manager := items1, agv_manager := agvs4\<rparr>)
                              else (Inr (failure (VFmt [VStr ''Failed to unload '', VStr pid,
                                        VStr '' from AGV '', VStr aid])),
                                    w\<lparr>agv_manager := agvs4\<rparr>)))
      | _ \<Rightarrow> (Inr (failure (VStr ''Missing parameters (product_id, agv_id, or restock_amount)'')), w))"

definition restock_agent_execute_action :: "action \<Rightarrow> warehouse \<Rightarrow> outcome" where
  "restock_agent_execute_action act w =
     (if act_action act = Some ''get_restock_needs'' then rs_get_restock_needs act w
      else if act_action act = Some ''plan_restock'' then rs_plan_restock act w
      else if act_action act = Some ''execute_restock'' then rs_execute_restock act w
      else (Inr (failure (VFmt [VStr ''Unknown action type: '', name_or_none (act_action act)])), w))"

section \<open>agents/coordinator.py\<close>

text \<open>
  The coordinator holds the warehouse, its three agents and the action history. The
  agents are the fields of a record of handlers, so that what is proved of the
  coordinator's own code holds whatever an agent does with the warehouse; \<open>the_agents\<close>
  are the agents of this repository. A journal timestamp is the reading of a counter that
  stands for \<open>datetime.now()\<close>; the optional log file is not modelled.

  \<open>_log_action\<close> and \<open>_log_result\<close> store the action dict and the result dict
  themselves. No code of the repository changes an action dict, so an action is a
  value here. A result that holds the load dict of an
  AGV (\<open>VLoadRef\<close>) therefore shows, in the journal, whatever that AGV carries now:
  \<open>action_history\<close> is the journal as it reads at the moment, and every change of the
  warehouse is followed by a fresh reading of the references in it.
\<close>

record agents =
  inventory_agent :: "action \<Rightarrow> warehouse \<Rightarrow> outcome"
  agv_agent :: "action \<Rightarrow> warehouse \<Rightarrow> outcome"
  restock_agent :: "action \<Rightarrow> warehouse \<Rightarrow> outcome"
  warehouse_direct :: "action \<Rightarrow> warehouse \<Rightarrow> outcome"

definition the_agents :: agents where
  "the_agents =
     \<lparr>inventory_agent = inventory_agent_execute_action,
      agv_agent = agv_planner_execute_action,
      restock_agent = restock_agent_execute_action,
      warehouse_direct = process_action\<rparr>"

datatype log_entry =
    ActionEntry nat action
  | ResultEntry nat action pydict

record coordinator =
  the_warehouse :: warehouse
  action_history :: "log_entry list"
  clock :: nat

definition log_action :: "action \<Rightarrow> coordinator \<Rightarrow> coordinator" where
  "log_action act c =
     c\<lparr>action_history := action_history c @ [ActionEntry (clock c) act],
       clock := Suc (clock c)\<rparr>"

definition log_result :: "action \<Rightarrow> pydict \<Rightarrow> coordinator \<Rightarrow> coordinator" where
  "log_result act res c =
     c\<lparr>action_history := action_history c @ [ResultEntry (clock c) act res],
       clock := Suc (clock c)\<rparr>"

text \<open>The routing of \<open>execute_action\<close> on the action's \<open>agent\<close>.\<close>

definition dispatch :: "agents \<Rightarrow> action \<Rightarrow> warehouse \<Rightarrow> outcome" where
  "dispatch ag act w =
     (if act_agent act = Some ''inventory'' then inventory_agent ag act w
      else if act_agent act = Some ''agv'' then agv_agent ag act w
      else if act_agent act = Some ''restock'' then restock_agent ag act w
      else if act_agent act = Some ''warehouse'' then warehouse_direct ag act w
      else (Inr (failure (VFmt [VStr ''Unknown agent type: '', name_or_none (act_agent act)])), w))"

text \<open>The value as it reads when the fleet is \<open>agvs\<close>. A rendered f-string is a string
  and stays as it is.\<close>

fun refresh_val :: "fleet \<Rightarrow> pyval \<Rightarrow> pyval" where
  "refresh_val agvs (VLoadRef k load) =
     VLoadRef k (case get_agv agvs k of Some a \<Rightarrow> current_load a | None \<Rightarrow> load)"
| "refresh_val agvs (VList vs) = VList (map (refresh_val agvs) vs)"
| "refresh_val agvs (VDict d) = VDict (map (map_prod id (refresh_val agvs)) d)"
| "refresh_val agvs v = v"

fun refresh_entry :: "fleet \<Rightarrow> log_entry \<Rightarrow> log_entry" where
  "refresh_entry agvs (ActionEntry t act) = ActionEntry t act"
| "refresh_entry agvs (ResultEntry t act res) =
     ResultEntry t act (map (map_prod id (refresh_val agvs)) res)"

text \<open>
  \<open>CoordinatorAgent.execute_action\<close>: the result dict or the exception that the agent
  raised (nothing catches it here), and the coordinator as the call leaves it. The
  entries already in the journal are read afresh against the warehouse the agent leaves.
\<close>

definition execute_action ::
  "agents \<Rightarrow> action \<Rightarrow> coordinator \<Rightarrow> (py_error + pydict) \<times> coordinator" where
  "execute_action ag act c =
     (case truthy (act_type act) of
        None \<Rightarrow> (Inr (failure (VStr ''No action type specified'')), c)
      | Some action_type \<Rightarrow>
          (let c1 = log_action act c;
               (r, w') = dispatch ag act (the_warehouse c1);
               journal = map (refresh_entry (agv_manager w')) (action_history c1)
           in case r of
                Inl e \<Rightarrow> (Inl e, c1\<lparr>the_warehouse := w', action_history := journal\<rparr>)
              | Inr res \<Rightarrow>
                  (Inr res,
                   log_result act res (c1\<lparr>the_warehouse := w', action_history := journal\<rparr>))))"

text \<open>Python truthiness of a value; an f-string is true when some part renders to text
  that is not empty.\<close>

fun renders_empty :: "pyval \<Rightarrow> bool" where
  "renders_empty (VStr s) = (s = [])"
| "renders_empty (VFmt ps) = list_all renders_empty ps"
| "renders_empty v = False"

fun py_truth :: "pyval \<Rightarrow> bool" where
  "py_truth VNone = False"
| "py_truth (VBool b) = b"
| "py_truth (VInt n) = (n \<noteq> 0)"
| "py_truth (VNum x) = (x \<noteq> 0)"
| "py_truth (VStr s) = (s \<noteq> [])"
| "py_truth (VErr e) = True"
| "py_truth (VStatus s) = True"
| "py_truth (VLoadRef k load) = (load \<noteq> [])"
| "py_truth (VFmt ps) = (\<not> list_all renders_empty ps)"
| "py_truth (VList vs) = (vs \<noteq> [])"
| "py_truth (VDict d) = (d \<noteq> [])"

text \<open>\<open>result.get("success", False)\<close>, as a condition.\<close>

definition succeeded :: "pydict \<Rightarrow> bool" where
  "succeeded res = (case map_of res ''success'' of None \<Rightarrow> False | Some v \<Rightarrow> py_truth v)"

text \<open>
  \<open>execute_plan\<close>: the loop over the plan, with the list \<open>results\<close> built so far. The
  loop breaks after the first result that does not report success. Each result is listed
  as its action returned it.
\<close>

fun execute_plan_loop ::
  "agents \<Rightarrow> action list \<Rightarrow> pydict list \<Rightarrow> coordinator \<Rightarrow> (py_error + pydict list) \<times> coordinator" where
  "execute_plan_loop ag [] results c = (Inr results, c)"
| "execute_plan_loop ag (act # plan) results c =
     (case execute_action ag act c of
        (Inl e, c') \<Rightarrow> (Inl e, c')
      | (Inr res, c') \<Rightarrow>
          if \<not> succeeded res then (Inr (results @ [res]), c')
          else execute_plan_loop ag plan (results @ [res]) c')"

definition execute_plan ::
  "agents \<Rightarrow> action list \<Rightarrow> coordinator \<Rightarrow> (py_error + pydict list) \<times> coordinator" where
  "execute_plan ag plan c = execute_plan_loop ag plan [] c"

definition get_action_history :: "coordinator \<Rightarrow> int \<Rightarrow> log_entry list" where
  "get_action_history c limit =
     (if limit > 0
      then drop (length (action_history c) - nat limit) (action_history c)
      else action_history c)"

section \<open>The demo warehouse\<close>

text \<open>
  The inventory and the fleet that \<open>Warehouse.initialize_demo_data\<close> builds. The demo
  orders get random ids and are left out; the statistics start at zero.
\<close>

definition p001 :: inventory_item where
  "p001 = \<lparr>product_id = ''P001'', name = ''Smartphone'', quantity = 50,
            location = ''storage_a'', min_threshold = 10, max_capacity = 100\<rparr>"

definition p002 :: inventory_item where
  "p002 = \<lparr>product_id = ''P002'', name = ''Laptop'', quantity = 20,
            location = ''storage_a'', min_threshold = 5, max_capacity = 50\<rparr>"

definition p003 :: inventory_item where
  "p003 = \<lparr>product_id = ''P003'', name = ''Tablet'', quantity = 30,
            location = ''storage_b'', min_threshold = 8, max_capacity = 80\<rparr>"

definition p004 :: inventory_item where
  "p004 = \<lparr>product_id = ''P004'', name = ''Headphones'', quantity = 100,
            location = ''storage_b'', min_threshold = 20, max_capacity = 200\<rparr>"

definition p005 :: inventory_item where
  "p005 = \<lparr>product_id = ''P005'', name = ''Smartwatch'', quantity = 15,
            location = ''storage_c'', min_threshold = 5, max_capacity = 50\<rparr>"

definition demo_inventory :: inventory where
  "demo_inventory =
     [(''P001'', p001), (''P002'', p002), (''P003'', p003), (''P004'', p004), (''P005'', p005)]"

definition agv001 :: agv where
  "agv001 = \<lparr>agv_id = ''AGV001'', agv_name = ''Picker Bot 1'',
              agv_location = ''charging_station'', status = IDLE, battery_level = 100,
              agv_max_capacity = 50, current_load = []\<rparr>"

definition agv002 :: agv where
  "agv002 = \<lparr>agv_id = ''AGV002'', agv_name = ''Picker Bot 2'',
              agv_location = ''storage_a'', status = IDLE, battery_level = 85,
              agv_max_capacity = 50, current_load = []\<rparr>"

definition agv003 :: agv where
  "agv003 = \<lparr>agv_id = ''AGV003'', agv_name = ''Heavy Lifter 1'',
              agv_location = ''receiving'', status = IDLE, battery_level = 90,
              agv_max_capacity = 100, current_load = []\<rparr>"

definition demo_fleet :: fleet where
  "demo_fleet = [(''AGV001'', agv001), (''AGV002'', agv002), (''AGV003'', agv003)]"

definition demo_warehouse :: warehouse where
  "demo_warehouse =
     \<lparr>inventory_manager = demo_inventory, agv_manager = demo_fleet, order_manager = [],
      stats = \<lparr>orders_processed = 0, items_picked = 0, items_restocked = 0, agv_movements = 0\<rparr>\<rparr>"

definition demo_coordinator :: coordinator where
  "demo_coordinator = \<lparr>the_warehouse = demo_warehouse, action_history = [], clock = 0\<rparr>"

text \<open>An action with no key set, to be filled in field by field.\<close>

definition empty_action :: action where
  "empty_action =
     \<lparr>act_type = None, act_agent = None, act_action = None, act_agv_id = None,
      act_product_id = None, act_quantity = None, act_restock_amount = None,
      act_destination = None, act_location = None, act_amount = None, act_order_id = None,
      act_status = None, act_product_data = None\<rparr>"

section \<open>Notions the properties are stated with\<close>








text \<open>
  The priority as the specification words it: 10 for an empty stock, otherwise
  \<open>clamp(round(((min_threshold - quantity) / min_threshold) * 10), 1, 9)\<close>; and the same
  with truncation toward zero in place of rounding.
\<close>

definition clamp :: "int \<Rightarrow> int \<Rightarrow> int \<Rightarrow> int" where
  "clamp x lo hi = min hi (max lo x)"


text \<open>The quotient of two ints truncated toward zero.\<close>

definition trunc_div :: "int \<Rightarrow> int \<Rightarrow> int" where
  "trunc_div a b = sgn a * sgn b * (\<bar>a\<bar> div \<bar>b\<bar>)"

definition restock_priority_truncated :: "inventory_item \<Rightarrow> int" where
  "restock_priority_truncated it =
     (if quantity it = 0 then 10
      else clamp (trunc_div (10 * (min_threshold it - quantity it)) (min_threshold it)) 1 9)"

text \<open>A value and a journal entry with the content of every load dict they refer to
  left out: what they hold of their own.\<close>

fun blank_val :: "pyval \<Rightarrow> pyval" where
  "blank_val (VLoadRef k load) = VLoadRef k []"
| "blank_val (VList vs) = VList (map blank_val vs)"
| "blank_val (VDict d) = VDict (map (map_prod id blank_val) d)"
| "blank_val v = v"

fun blank_entry :: "log_entry \<Rightarrow> log_entry" where
  "blank_entry (ActionEntry t act) = ActionEntry t act"
| "blank_entry (ResultEntry t act res) = ResultEntry t act (map (map_prod id blank_val) res)"

text \<open>
  The plain sequential run of a list of actions through \<open>execute_action\<close>, one after
  the other with no early exit: the results in order and the coordinator left.
\<close>

fun execute_each ::
  "agents \<Rightarrow> action list \<Rightarrow> coordinator \<Rightarrow> (py_error + pydict list) \<times> coordinator" where
  "execute_each ag [] c = (Inr [], c)"
| "execute_each ag (act # acts) c =
     (case execute_action ag act c of
        (Inl e, c') \<Rightarrow> (Inl e, c')
      | (Inr res, c') \<Rightarrow>
          (case execute_each ag acts c' of
             (Inl e, c'') \<Rightarrow> (Inl e, c'')
           | (Inr rs, c'') \<Rightarrow> (Inr (res # rs), c'')))"

section \<open>Concrete inputs\<close>

text \<open>A restock of 60 units of P001 (50 in stock, capacity 100) with the heavy lifter.\<close>

definition restock_overfill :: action where
  "restock_overfill =
     empty_action\<lparr>act_type := Some ''restock'', act_agent := Some ''restock'',
       act_action := Some ''execute_restock'', act_product_id := Some ''P001'',
       act_agv_id := Some ''AGV003'', act_restock_amount := Some 60\<rparr>"

text \<open>The demo warehouse with AGV002 carrying 5 units of P999, a product the ledger
  does not know, and the demand to unload them.\<close>

definition stray_cargo_warehouse :: warehouse where
  "stray_cargo_warehouse =
     demo_warehouse\<lparr>agv_manager :=
       [(''AGV001'', agv001), (''AGV002'', agv002\<lparr>current_load := [(''P999'', 5)]\<rparr>),
        (''AGV003'', agv003)]\<rparr>"

definition unload_stray_cargo :: action where
  "unload_stray_cargo =
     empty_action\<lparr>act_type := Some ''agv'', act_agent := Some ''agv'',
       act_action := Some ''unload_agv'', act_agv_id := Some ''AGV002'',
       act_product_id := Some ''P999''\<rparr>"

text \<open>A new product registered with 150 units in stock and the default capacity of 100,
  the warehouse this leaves, and a load of 60 of its units onto AGV001 (capacity 50).\<close>

definition add_overfull_product :: action where
  "add_overfull_product =
     empty_action\<lparr>act_type := Some ''inventory'', act_agent := Some ''inventory'',
       act_action := Some ''add_new_product'',
       act_product_data := Some \<lparr>pd_product_id = Some ''P900'', pd_name = Some ''Pallet'',
         pd_quantity = Some 150, pd_location = Some ''storage_a'',
         pd_min_threshold = None, pd_max_capacity = None\<rparr>\<rparr>"

definition overfull_warehouse :: warehouse where
  "overfull_warehouse = snd (inventory_agent_execute_action add_overfull_product demo_warehouse)"

definition load_overfull :: action where
  "load_overfull =
     empty_action\<lparr>act_type := Some ''agv'', act_agent := Some ''agv'',
       act_action := Some ''load_agv'', act_agv_id := Some ''AGV001'',
       act_product_id := Some ''P900'', act_quantity := Some 60\<rparr>"

text \<open>Three actions of a plan: a credit of 10 units of P001, a load of 60 units of P004
  onto AGV001 (capacity 50), and a move of AGV002.\<close>

definition credit_p001 :: action where
  "credit_p001 =
     empty_action\<lparr>act_type := Some ''inventory'', act_agent := Some ''inventory'',
       act_action := Some ''add_inventory'', act_product_id := Some ''P001'',
       act_quantity := Some 10\<rparr>"

definition load_too_much :: action where
  "load_too_much =
     empty_action\<lparr>act_type := Some ''agv'', act_agent := Some ''agv'',
       act_action := Some ''load_agv'', act_agv_id := Some ''AGV001'',
       act_product_id := Some ''P004'', act_quantity := Some 60\<rparr>"

definition move_agv002 :: action where
  "move_agv002 =
     empty_action\<lparr>act_type := Some ''agv'', act_agent := Some ''agv'',
       act_action := Some ''move_agv'', act_agv_id := Some ''AGV002'',
       act_destination := Some ''shipping''\<rparr>"

text \<open>AGV002 (capacity 50, at \<open>storage_a\<close>) loaded with 20 units of P002, the warehouse
  this leaves, and a pick of 40 units of P001 by the same AGV.\<close>

definition load_laptops :: action where
  "load_laptops =
     empty_action\<lparr>act_type := Some ''agv'', act_agent := Some ''agv'',
       act_action := Some ''load_agv'', act_agv_id := Some ''AGV002'',
       act_product_id := Some ''P002'', act_quantity := Some 20\<rparr>"

definition laden_warehouse :: warehouse where
  "laden_warehouse = snd (agv_planner_execute_action load_laptops demo_warehouse)"

definition pick_too_much :: action where
  "pick_too_much =
     empty_action\<lparr>act_type := Some ''pick_item'', act_agent := Some ''warehouse'',
       act_agv_id := Some ''AGV002'', act_product_id := Some ''P001'',
       act_quantity := Some 40\<rparr>"

text \<open>AGV002 of the demo fleet with 20 units of P002 on board.\<close>

definition laden_agv :: agv where
  "laden_agv = agv002\<lparr>current_load := [(''P002'', 20)]\<rparr>"

text \<open>The listing of the available AGVs, the coordinator after it, and the coordinator
  after AGV002 has then loaded 20 units of P002.\<close>

definition list_available :: action where
  "list_available =
     empty_action\<lparr>act_type := Some ''agv'', act_agent := Some ''agv'',
       act_action := Some ''get_available_agvs''\<rparr>"

definition after_listing :: coordinator where
  "after_listing = snd (execute_action the_agents list_available demo_coordinator)"

definition after_listing_and_load :: coordinator where
  "after_listing_and_load = snd (execute_action the_agents load_laptops after_listing)"

text \<open>A check of P001 that names no action type.\<close>

definition untyped_check :: action where
  "untyped_check =
     empty_action\<lparr>act_agent := Some ''inventory'', act_action := Some ''check_inventory'',
       act_product_id := Some ''P001''\<rparr>"

text \<open>The demo warehouse with AGV003 at \<open>storage_a\<close> carrying 60 units of P001, and the
  demand to unload them through the AGV planner.\<close>

definition returning_warehouse :: warehouse where
  "returning_warehouse =
     demo_warehouse\<lparr>agv_manager :=
       [(''AGV001'', agv001), (''AGV002'', agv002),
        (''AGV003'', agv003\<lparr>agv_location := ''storage_a'', current_load := [(''P001'', 60)]\<rparr>)]\<rparr>"

definition unload_returning :: action where
  "unload_returning =
     empty_action\<lparr>act_type := Some ''agv'', act_agent := Some ''agv'',
       act_action := Some ''unload_agv'', act_agv_id := Some ''AGV003'',
       act_product_id := Some ''P001''\<rparr>"

text \<open>The results and the coordinators of the run of \<open>credit_p001\<close> and then
  \<open>load_too_much\<close> from the demo coordinator.\<close>

definition credit_result :: pydict where
  "credit_result =
     [(''success'', VBool True), (''product_id'', VStr ''P001''),
      (''added_quantity'', VInt 10), (''new_quantity'', VInt 60)]"

definition after_credit :: coordinator where
  "after_credit = snd (execute_action the_agents credit_p001 demo_coordinator)"

definition load_refusal :: pydict where
  "load_refusal =
     failure (VFmt [VStr ''Failed to load '', VInt 60, VStr '' units of '', VStr ''P004'',
                    VStr '' onto AGV '', VStr ''AGV001''])"

definition after_refusal :: coordinator where
  "after_refusal = snd (execute_action the_agents load_too_much after_credit)"

section \<open>The inventory ledger keeps its bounds\<close>











section \<open>An AGV never carries more than its capacity\<close>







section \<open>Unloading a whole line\<close>

text \<open>
  C10. For an idle AGV that holds \<open>h\<close> units of a product, \<open>unload_item\<close> with no
  quantity, or with a quantity of at least \<open>h\<close>, removes the whole line of the product
  from \<open>current_load\<close> and returns the product with \<open>h\<close>: a request above what is held
  is cut down to what is held.
\<close>

theorem unload_item_whole_line:
  assumes "status a = IDLE" and "map_of (current_load a) pid = Some h"
    and "q = None \<or> (\<exists>n. q = Some n \<and> h \<le> n)"
  shows "unload_item a pid q =
           ((pid, h),
            a\<lparr>current_load := AList.delete pid (current_load a),
              battery_level := max 0 (battery_level a - 2),
              status := IDLE\<rparr>)
         \<and> map_of (current_load (snd (unload_item a pid q))) pid = None"
  using assms by (auto simp: unload_item_def AList.delete_conv')

theorem unload_item_whole_line_witness:
  "status laden_agv = IDLE
   \<and> map_of (current_load laden_agv) ''P002'' = Some 20
   \<and> unload_item laden_agv ''P002'' (Some 25)
       = ((''P002'', 20),
          laden_agv\<lparr>current_load := [], battery_level := 83, status := IDLE\<rparr>)
   \<and> unload_item laden_agv ''P002'' None
       = ((''P002'', 20),
          laden_agv\<lparr>current_load := [], battery_level := 83, status := IDLE\<rparr>)"
proof -
  have idle: "status laden_agv = IDLE" by (simp add: laden_agv_def agv002_def)
  have held: "map_of (current_load laden_agv) ''P002'' = Some 20" by (simp add: laden_agv_def)
  have rest: "AList.delete ''P002'' (current_load laden_agv) = []" by (simp add: laden_agv_def)
  have battery: "max 0 (battery_level laden_agv - 2) = 83" by (simp add: laden_agv_def agv002_def)
  have "Some (25::int) = None \<or> (\<exists>n. Some 25 = Some n \<and> (20::int) \<le> n)" by simp
  from unload_item_whole_line [OF idle held this]
  have u1: "unload_item laden_agv ''P002'' (Some 25)
       = ((''P002'', 20),
          laden_agv\<lparr>current_load := [], battery_level := 83, status := IDLE\<rparr>)"
    by (simp only: rest battery)
  have "(None :: int option) = None \<or> (\<exists>n. None = Some n \<and> (20::int) \<le> n)" by simp
  from unload_item_whole_line [OF idle held this]
  have u2: "unload_item laden_agv ''P002'' None
       = ((''P002'', 20),
          laden_agv\<lparr>current_load := [], battery_level := 83, status := IDLE\<rparr>)"
    by (simp only: rest battery)
  from idle held u1 u2 show ?thesis by blast
qed

section \<open>The restock priority\<close>



lemma double_limit_power: "double_limit = 2 ^ 1024"
  by (simp add: double_limit_def)



lemma priority_zero_threshold:
  "quantity it \<noteq> 0 \<Longrightarrow> min_threshold it = 0 \<Longrightarrow>
   calculate_restock_priority it = Inl ZeroDivisionError"
  by (simp add: calculate_restock_priority_def true_divide_def)



text \<open>
  The doubles are not the rationals: for a quantity of \<open>3 * 10 ^ 17 + 1\<close> at a threshold
  of \<open>10 ^ 18\<close> the exact tenfold quotient is just below 7 and truncates to 6, but the
  quotient rounds to the double nearest 0.7, whose tenfold rounds to 7.0.
\<close>

lemma priority_rounds_in_double:
  "calculate_restock_priority
     \<lparr>product_id = ''P001'', name = ''Smartphone'', quantity = 300000000000000001,
      location = ''storage_a'', min_threshold = 1000000000000000000, max_capacity = 100\<rparr> = Inr 7
   \<and> restock_priority_truncated
     \<lparr>product_id = ''P001'', name = ''Smartphone'', quantity = 300000000000000001,
      location = ''storage_a'', min_threshold = 1000000000000000000, max_capacity = 100\<rparr> = 6"
  by code_simp




section \<open>Planning a restock changes nothing\<close>

lemma plan_restock_operation_frame: "snd (plan_restock_operation pid w) = w"
  by (simp add: plan_restock_operation_def Let_def split: option.splits list.splits)

text \<open>
  C8. \<open>plan_restock_operation\<close> leaves the warehouse (the inventory ledger, the fleet
  and all the rest) as it found it, for every product id, and so does the \<open>plan_restock\<close>
  action of the restock agent. When the item exists with a quantity above its
  \<open>min_threshold\<close>, the plan reports \<open>success = True\<close> and \<open>restock_needed = False\<close>.
\<close>

theorem plan_restock_no_mutation:
  "snd (plan_restock_operation pid w) = w
   \<and> (act_action act = Some ''plan_restock'' \<longrightarrow>
        snd (restock_agent_execute_action act w) = w)
   \<and> (get_item (inventory_manager w) pid = Some it \<and> min_threshold it < quantity it \<longrightarrow>
        map_of (fst (plan_restock_operation pid w)) ''success'' = Some (VBool True)
        \<and> map_of (fst (plan_restock_operation pid w)) ''restock_needed'' = Some (VBool False))"
proof (intro conjI impI)
  show "snd (plan_restock_operation pid w) = w"
    by (rule plan_restock_operation_frame)
next
  assume "act_action act = Some ''plan_restock''"
  then show "snd (restock_agent_execute_action act w) = w"
    by (simp add: restock_agent_execute_action_def rs_plan_restock_def case_prod_beta
          plan_restock_operation_frame split: option.splits)
next
  assume a: "get_item (inventory_manager w) pid = Some it \<and> min_threshold it < quantity it"
  then show "map_of (fst (plan_restock_operation pid w)) ''success'' = Some (VBool True)"
    by (simp add: plan_restock_operation_def needs_restock_def)
  from a show "map_of (fst (plan_restock_operation pid w)) ''restock_needed'' = Some (VBool False)"
    by (simp add: plan_restock_operation_def needs_restock_def)
qed

theorem plan_restock_no_mutation_witness:
  "act_action (empty_action\<lparr>act_agent := Some ''restock'', act_action := Some ''plan_restock'',
       act_product_id := Some ''P001''\<rparr>) = Some ''plan_restock''
   \<and> snd (restock_agent_execute_action
        (empty_action\<lparr>act_agent := Some ''restock'', act_action := Some ''plan_restock'',
           act_product_id := Some ''P001''\<rparr>) demo_warehouse) = demo_warehouse
   \<and> get_item (inventory_manager demo_warehouse) ''P001'' = Some p001
   \<and> min_threshold p001 < quantity p001
   \<and> map_of (fst (plan_restock_operation ''P001'' demo_warehouse)) ''success'' = Some (VBool True)
   \<and> map_of (fst (plan_restock_operation ''P001'' demo_warehouse)) ''restock_needed''
       = Some (VBool False)"
proof -
  have i: "get_item (inventory_manager demo_warehouse) ''P001'' = Some p001"
    by (simp add: get_item_def demo_warehouse_def demo_inventory_def)
  have above: "min_threshold p001 < quantity p001"
    by (simp add: p001_def)
  note t = plan_restock_no_mutation [of "''P001''" demo_warehouse
      "empty_action\<lparr>act_agent := Some ''restock'', act_action := Some ''plan_restock'',
         act_product_id := Some ''P001''\<rparr>" p001]
  from t i above show ?thesis by simp
qed

section \<open>A failed load puts the quantity back\<close>

lemma remove_quantity_accepts:
  "get_item items pid = Some it \<Longrightarrow>
   remove_quantity pid n items =
     (if n > quantity it then (False, items)
      else (True, AList.update pid (it\<lparr>quantity := quantity it - n\<rparr>) items))"
  by (simp add: remove_quantity_def item_remove_def get_item_def AList.update_triv)

lemma remove_add_roundtrip:
  assumes "get_item items pid = Some it" and "quantity it \<le> max_capacity it"
    and "fst (remove_quantity pid n items)"
  shows "add_quantity pid n (snd (remove_quantity pid n items)) = (True, items)"
proof -
  from assms(1,3) have r: "remove_quantity pid n items
      = (True, AList.update pid (it\<lparr>quantity := quantity it - n\<rparr>) items)"
    by (simp add: remove_quantity_accepts split: if_splits)
  have g: "get_item (AList.update pid (it\<lparr>quantity := quantity it - n\<rparr>) items) pid
      = Some (it\<lparr>quantity := quantity it - n\<rparr>)"
    by (simp add: get_item_def AList.update_conv')
  have "AList.update pid it items = items"
    using assms(1) by (simp add: get_item_def AList.update_triv)
  with assms(2) g show ?thesis
    by (simp add: r add_quantity_def item_add_def can_add_def)
qed

text \<open>
  C2 does not hold of the code. The revert of the ledger after a failed load goes through
  \<open>add_quantity\<close>, whose capacity check can refuse it, and the code ignores what it
  returns. Product P900 is registered by \<open>add_new_product\<close> with 150 units and the
  default capacity of 100; a load of 60 units onto AGV001 (capacity 50) debits the ledger
  to 90, fails on the AGV, and leaves the ledger at 90: 60 units are neither in the
  ledger nor on the AGV.
\<close>

theorem load_failure_overfull_item:
  "get_agv (agv_manager overfull_warehouse) ''AGV001'' = Some agv001
   \<and> map_option quantity (get_item (inventory_manager overfull_warehouse) ''P900'') = Some 150
   \<and> map_option max_capacity (get_item (inventory_manager overfull_warehouse) ''P900'') = Some 100
   \<and> fst (remove_quantity ''P900'' 60 (inventory_manager overfull_warehouse))
   \<and> \<not> fst (load_agv ''AGV001'' ''P900'' 60
            (snd (move_agv ''AGV001'' ''storage_a'' (agv_manager overfull_warehouse))))
   \<and> fst (agv_planner_execute_action load_overfull overfull_warehouse)
       = Inr (failure (VFmt [VStr ''Failed to load '', VInt 60, VStr '' units of '',
                VStr ''P900'', VStr '' onto AGV '', VStr ''AGV001'']))
   \<and> map_option quantity
        (get_item (inventory_manager (snd (agv_planner_execute_action load_overfull
           overfull_warehouse))) ''P900'') = Some 90"
  by code_simp

text \<open>
  Where the item is within its capacity before the call, the revert is exact. For every
  \<open>load_agv\<close> demand of the AGV planner, and every \<open>pick_item\<close> action of the warehouse,
  where the AGV and the item exist, \<open>quantity \<le> max_capacity\<close> holds of the item, the debit
  of the ledger succeeds and the load of the AGV that follows fails, the call reports
  failure and the inventory ledger after the call is the ledger before it. The planner
  moves the AGV to the item first when it stands elsewhere, so the load is the one on the
  fleet after that move.
\<close>

theorem load_failure_restores_ledger:
  assumes agv: "get_agv (agv_manager w) aid = Some a"
    and item: "get_item (inventory_manager w) pid = Some it"
    and ids: "truthy (act_agv_id act) = Some aid" "truthy (act_product_id act) = Some pid"
    and qty: "get_default (act_quantity act) 1 = qty"
    and bound: "quantity it \<le> max_capacity it"
    and debit: "fst (remove_quantity pid qty (inventory_manager w))"
  shows "(act_action act = Some ''load_agv'' \<and> 0 < qty
          \<and> \<not> fst (load_agv aid pid qty
                 (if agv_location a \<noteq> location it
                  then snd (move_agv aid (location it) (agv_manager w))
                  else agv_manager w))
        \<longrightarrow> inventory_manager (snd (agv_planner_execute_action act w)) = inventory_manager w
          \<and> fst (agv_planner_execute_action act w)
              = Inr (failure (VFmt [VStr ''Failed to load '', VInt qty, VStr '' units of '',
                       VStr pid, VStr '' onto AGV '', VStr aid])))
     \<and> (act_type act = Some ''pick_item'' \<and> agv_location a = location it
          \<and> \<not> fst (load_agv aid pid qty (agv_manager w))
        \<longrightarrow> inventory_manager (snd (process_action act w)) = inventory_manager w
          \<and> fst (process_action act w)
              = Inr (failure (VFmt [VStr ''Failed to load '', VInt qty, VStr '' units of '',
                       VStr pid, VStr '' onto AGV '', VStr aid])))"
proof -
  note readd = remove_add_roundtrip [OF item bound debit]
  from item debit have enough: "\<not> quantity it < qty"
    by (simp add: remove_quantity_accepts split: if_splits)
  have moved: "fst (move_agv aid (location it) (agv_manager w))"
    using agv by (simp add: move_agv_def)
  have planner: "agv_planner_execute_action act w =
       (Inr (failure (VFmt [VStr ''Failed to load '', VInt qty, VStr '' units of '',
                       VStr pid, VStr '' onto AGV '', VStr aid])),
        w\<lparr>inventory_manager := inventory_manager w,
          agv_manager := snd (load_agv aid pid qty
                 (if agv_location a \<noteq> location it
                  then snd (move_agv aid (location it) (agv_manager w))
                  else agv_manager w))\<rparr>)"
    if a: "act_action act = Some ''load_agv'' \<and> 0 < qty
          \<and> \<not> fst (load_agv aid pid qty
                 (if agv_location a \<noteq> location it
                  then snd (move_agv aid (location it) (agv_manager w))
                  else agv_manager w))"
  proof -
    have "agv_load_agv act w =
       (Inr (failure (VFmt [VStr ''Failed to load '', VInt qty, VStr '' units of '',
                       VStr pid, VStr '' onto AGV '', VStr aid])),
        w\<lparr>inventory_manager := inventory_manager w,
          agv_manager := snd (load_agv aid pid qty
                 (if agv_location a \<noteq> location it
                  then snd (move_agv aid (location it) (agv_manager w))
                  else agv_manager w))\<rparr>)"
    proof (cases "agv_location a = location it")
      case True
      with a agv item ids qty enough debit readd show ?thesis
        by (simp add: agv_load_agv_def Let_def case_prod_beta)
    next
      case False
      with a agv item ids qty enough debit readd moved show ?thesis
        by (simp add: agv_load_agv_def Let_def case_prod_beta)
    qed
    with a show ?thesis
      by (simp add: agv_planner_execute_action_def)
  qed
  have direct: "process_action act w =
       (Inr (failure (VFmt [VStr ''Failed to load '', VInt qty, VStr '' units of '',
                       VStr pid, VStr '' onto AGV '', VStr aid])),
        w\<lparr>inventory_manager := inventory_manager w,
          agv_manager := snd (load_agv aid pid qty (agv_manager w))\<rparr>)"
    if a: "act_type act = Some ''pick_item'' \<and> agv_location a = location it
          \<and> \<not> fst (load_agv aid pid qty (agv_manager w))"
  proof -
    from a agv item ids qty debit readd
    have "wh_pick_item act w =
       (Inr (failure (VFmt [VStr ''Failed to load '', VInt qty, VStr '' units of '',
                       VStr pid, VStr '' onto AGV '', VStr aid])),
        w\<lparr>inventory_manager := inventory_manager w,
          agv_manager := snd (load_agv aid pid qty (agv_manager w))\<rparr>)"
      by (simp add: wh_pick_item_def Let_def case_prod_beta)
    with a show ?thesis
      by (simp add: process_action_def)
  qed
  show ?thesis
  proof (intro conjI impI)
    assume a: "act_action act = Some ''load_agv'' \<and> 0 < qty
          \<and> \<not> fst (load_agv aid pid qty
                 (if agv_location a \<noteq> location it
                  then snd (move_agv aid (location it) (agv_manager w))
                  else agv_manager w))"
    show "inventory_manager (snd (agv_planner_execute_action act w)) = inventory_manager w"
      by (simp add: planner [OF a])
    show "fst (agv_planner_execute_action act w)
              = Inr (failure (VFmt [VStr ''Failed to load '', VInt qty, VStr '' units of '',
                       VStr pid, VStr '' onto AGV '', VStr aid]))"
      by (simp add: planner [OF a])
  next
    assume a: "act_type act = Some ''pick_item'' \<and> agv_location a = location it
          \<and> \<not> fst (load_agv aid pid qty (agv_manager w))"
    show "inventory_manager (snd (process_action act w)) = inventory_manager w"
      by (simp add: direct [OF a])
    show "fst (process_action act w)
              = Inr (failure (VFmt [VStr ''Failed to load '', VInt qty, VStr '' units of '',
                       VStr pid, VStr '' onto AGV '', VStr aid]))"
      by (simp add: direct [OF a])
  qed
qed


theorem load_failure_restores_ledger_witness:
  "act_action load_too_much = Some ''load_agv''
   \<and> get_agv (agv_manager demo_warehouse) ''AGV001'' = Some agv001
   \<and> get_item (inventory_manager demo_warehouse) ''P004'' = Some p004
   \<and> quantity p004 \<le> max_capacity p004
   \<and> fst (remove_quantity ''P004'' 60 (inventory_manager demo_warehouse))
   \<and> \<not> fst (load_agv ''AGV001'' ''P004'' 60
            (snd (move_agv ''AGV001'' ''storage_b'' (agv_manager demo_warehouse))))
   \<and> inventory_manager (snd (agv_planner_execute_action load_too_much demo_warehouse))
       = inventory_manager demo_warehouse
   \<and> act_type pick_too_much = Some ''pick_item''
   \<and> get_agv (agv_manager laden_warehouse) ''AGV002''
       = Some (agv002\<lparr>current_load := [(''P002'', 20)], battery_level := 83\<rparr>)
   \<and> get_item (inventory_manager laden_warehouse) ''P001'' = Some p001
   \<and> fst (remove_quantity ''P001'' 40 (inventory_manager laden_warehouse))
   \<and> \<not> fst (load_agv ''AGV002'' ''P001'' 40 (agv_manager laden_warehouse))
   \<and> inventory_manager (snd (process_action pick_too_much laden_warehouse))
       = inventory_manager laden_warehouse"
proof -
  have a1: "get_agv (agv_manager demo_warehouse) ''AGV001'' = Some agv001"
    by (simp add: get_agv_def demo_warehouse_def demo_fleet_def)
  have i1: "get_item (inventory_manager demo_warehouse) ''P004'' = Some p004"
    by (simp add: get_item_def demo_warehouse_def demo_inventory_def)
  have ids1: "truthy (act_agv_id load_too_much) = Some ''AGV001''"
    "truthy (act_product_id load_too_much) = Some ''P004''"
    by (simp_all add: load_too_much_def empty_action_def)
  have q1: "get_default (act_quantity load_too_much) 1 = 60"
    by (simp add: load_too_much_def empty_action_def get_default_def)
  have b1: "quantity p004 \<le> max_capacity p004"
    by (simp add: p004_def)
  have d1: "fst (remove_quantity ''P004'' 60 (inventory_manager demo_warehouse))"
    by code_simp
  have k1: "act_action load_too_much = Some ''load_agv''"
    by (simp add: load_too_much_def empty_action_def)
  have l1: "\<not> fst (load_agv ''AGV001'' ''P004'' 60
            (snd (move_agv ''AGV001'' ''storage_b'' (agv_manager demo_warehouse))))"
    by code_simp
  have l1': "\<not> fst (load_agv ''AGV001'' ''P004'' 60
            (if agv_location agv001 \<noteq> location p004
             then snd (move_agv ''AGV001'' (location p004) (agv_manager demo_warehouse))
             else agv_manager demo_warehouse))"
    using l1 by (simp add: agv001_def p004_def)
  from load_failure_restores_ledger [OF a1 i1 ids1 q1 b1 d1] k1 l1'
  have c1: "inventory_manager (snd (agv_planner_execute_action load_too_much demo_warehouse))
       = inventory_manager demo_warehouse"
    by simp
  have a2: "get_agv (agv_manager laden_warehouse) ''AGV002''
       = Some (agv002\<lparr>current_load := [(''P002'', 20)], battery_level := 83\<rparr>)"
    by code_simp
  have i2: "get_item (inventory_manager laden_warehouse) ''P001'' = Some p001"
    by code_simp
  have ids2: "truthy (act_agv_id pick_too_much) = Some ''AGV002''"
    "truthy (act_product_id pick_too_much) = Some ''P001''"
    by (simp_all add: pick_too_much_def empty_action_def)
  have q2: "get_default (act_quantity pick_too_much) 1 = 40"
    by (simp add: pick_too_much_def empty_action_def get_default_def)
  have b2: "quantity p001 \<le> max_capacity p001"
    by (simp add: p001_def)
  have d2: "fst (remove_quantity ''P001'' 40 (inventory_manager laden_warehouse))"
    by code_simp
  have k2: "act_type pick_too_much = Some ''pick_item''"
    by (simp add: pick_too_much_def empty_action_def)
  have l2: "\<not> fst (load_agv ''AGV002'' ''P001'' 40 (agv_manager laden_warehouse))"
    by code_simp
  have same: "agv_location (agv002\<lparr>current_load := [(''P002'', 20)], battery_level := 83\<rparr>)
       = location p001"
    by (simp add: agv002_def p001_def)
  from load_failure_restores_ledger [OF a2 i2 ids2 q2 b2 d2] k2 same l2
  have c2: "inventory_manager (snd (process_action pick_too_much laden_warehouse))
       = inventory_manager laden_warehouse"
    by simp
  from k1 a1 i1 b1 d1 l1 c1 k2 a2 i2 d2 l2 c2 show ?thesis by blast
qed

section \<open>The restock commit and the unload of an unknown product\<close>

text \<open>
  C1 does not hold of the code. In the \<open>execute_restock\<close> branch, when the unload has
  succeeded and \<open>add_quantity\<close> then fails, the branch returns the failure and loads
  nothing back. A restock of 60 units of P001 (50 in stock, capacity 100) with AGV003
  ends with the AGV empty at \<open>storage_a\<close> and the ledger as before: the 60 units are
  neither on the AGV nor in the ledger.
\<close>

theorem execute_restock_no_reload:
  "fst (unload_agv ''AGV003'' ''P001'' (Some 60)
          (snd (move_agv ''AGV003'' ''storage_a''
             (snd (load_agv ''AGV003'' ''P001'' 60
                (snd (move_agv ''AGV003'' ''receiving'' demo_fleet))))))) = (''P001'', 60)
   \<and> fst (restock_agent_execute_action restock_overfill demo_warehouse)
       = Inr (failure (VFmt [VStr ''Failed to add '', VInt 60, VStr '' units of '', VStr ''P001'',
                VStr '' to inventory'']))
   \<and> get_agv (agv_manager (snd (restock_agent_execute_action restock_overfill demo_warehouse)))
        ''AGV003''
       = Some (agv003\<lparr>agv_location := ''storage_a'', battery_level := 76, current_load := []\<rparr>)
   \<and> inventory_manager (snd (restock_agent_execute_action restock_overfill demo_warehouse))
       = demo_inventory"
  by code_simp

text \<open>
  The sibling paths do load back: the \<open>unload_agv\<close> branch of the AGV planner, from the
  state in which AGV003 carries the 60 units at \<open>storage_a\<close>, fails on the same credit
  and leaves the 60 units on the AGV.
\<close>

lemma planner_unload_reloads:
  "fst (agv_planner_execute_action unload_returning returning_warehouse)
       = Inr (failure (VFmt [VStr ''Failed to add '', VInt 60, VStr '' units of '', VStr ''P001'',
                VStr '' to inventory'']))
   \<and> map_option current_load
        (get_agv (agv_manager (snd (agv_planner_execute_action unload_returning
           returning_warehouse))) ''AGV003'') = Some [(''P001'', 60)]
   \<and> inventory_manager (snd (agv_planner_execute_action unload_returning returning_warehouse))
       = demo_inventory"
  by code_simp

text \<open>
  C5 does not hold of the code. When the AGV holds the product and the ledger has no
  entry for it, the \<open>unload_agv\<close> branch passes a dict literal to \<open>add_item\<close>, which reads
  \<open>item.product_id\<close>: the call raises \<open>AttributeError\<close>. No item is created and no
  result is returned, and the AGV has already been unloaded.
\<close>

theorem unload_unknown_product_raises:
  "agv_planner_execute_action unload_stray_cargo stray_cargo_warehouse
    = (Inl AttributeError,
       stray_cargo_warehouse\<lparr>agv_manager :=
         [(''AGV001'', agv001), (''AGV002'', agv002\<lparr>battery_level := 83\<rparr>),
          (''AGV003'', agv003)]\<rparr>)
   \<and> get_item (inventory_manager (snd (agv_planner_execute_action unload_stray_cargo
         stray_cargo_warehouse))) ''P999'' = None"
  by code_simp

section \<open>Plans stop at the first failure\<close>

lemma execute_plan_loop_prefix:
  "execute_each ag pre c = (Inr rs, c1) \<Longrightarrow> list_all succeeded rs \<Longrightarrow>
   execute_plan_loop ag (pre @ rest) acc c = execute_plan_loop ag rest (acc @ rs) c1"
proof (induction pre arbitrary: c rs acc)
  case Nil
  then show ?case by simp
next
  case (Cons act pre)
  from Cons.prems(1) obtain r c' rs' where
    step: "execute_action ag act c = (Inr r, c')" and
    tail: "execute_each ag pre c' = (Inr rs', c1)" and
    rs: "rs = r # rs'"
    by (auto split: prod.splits sum.splits)
  from Cons.prems(2) rs have ok: "succeeded r" and oks: "list_all succeeded rs'"
    by simp_all
  from Cons.IH [OF tail oks, of "acc @ [r]"] step ok rs show ?case
    by simp
qed

lemma execute_each_snoc:
  "execute_each ag pre c = (Inr rs, c1) \<Longrightarrow> execute_action ag b c1 = (Inr r, c2) \<Longrightarrow>
   execute_each ag (pre @ [b]) c = (Inr (rs @ [r]), c2)"
proof (induction pre arbitrary: c rs)
  case Nil
  then show ?case by simp
next
  case (Cons act pre)
  from Cons.prems(1) obtain r0 c' rs' where
    step: "execute_action ag act c = (Inr r0, c')" and
    tail: "execute_each ag pre c' = (Inr rs', c1)" and
    rs: "rs = r0 # rs'"
    by (auto split: prod.splits sum.splits)
  from Cons.IH [OF tail Cons.prems(2)] step rs show ?case
    by simp
qed

text \<open>
  C7. \<open>execute_plan\<close> runs the actions of a plan in order through \<open>execute_action\<close>. When
  the actions of a prefix all return results that report success and the next action
  returns a result that does not, \<open>execute_plan\<close> returns exactly the results of that
  prefix followed by the failing result, and leaves the coordinator that the run of the
  prefix and the failing action leaves: the result and the state are those of running
  only these actions, whatever follows in the plan, and nothing the earlier actions did
  is undone. A plan whose actions all succeed returns all their results.
\<close>

theorem execute_plan_short_circuit:
  "(execute_each ag pre c = (Inr rs, c1) \<and> list_all succeeded rs
      \<and> execute_action ag b c1 = (Inr r, c2) \<and> \<not> succeeded r
    \<longrightarrow> execute_plan ag (pre @ b # rest) c = (Inr (rs @ [r]), c2)
      \<and> execute_plan ag (pre @ b # rest) c = execute_each ag (pre @ [b]) c)
   \<and> (execute_each ag plan c = (Inr rs, c1) \<and> list_all succeeded rs
    \<longrightarrow> execute_plan ag plan c = (Inr rs, c1))"
proof (intro conjI impI)
  assume a: "execute_each ag pre c = (Inr rs, c1) \<and> list_all succeeded rs
      \<and> execute_action ag b c1 = (Inr r, c2) \<and> \<not> succeeded r"
  then have pre: "execute_each ag pre c = (Inr rs, c1)" and oks: "list_all succeeded rs"
    and step: "execute_action ag b c1 = (Inr r, c2)" and failed: "\<not> succeeded r"
    by simp_all
  have "execute_plan_loop ag (pre @ b # rest) [] c = execute_plan_loop ag (b # rest) ([] @ rs) c1"
    using pre oks by (rule execute_plan_loop_prefix)
  with step failed show p: "execute_plan ag (pre @ b # rest) c = (Inr (rs @ [r]), c2)"
    by (simp add: execute_plan_def)
  have "execute_each ag (pre @ [b]) c = (Inr (rs @ [r]), c2)"
    using pre step by (rule execute_each_snoc)
  with p show "execute_plan ag (pre @ b # rest) c = execute_each ag (pre @ [b]) c"
    by simp
next
  assume a: "execute_each ag plan c = (Inr rs, c1) \<and> list_all succeeded rs"
  then have pre: "execute_each ag plan c = (Inr rs, c1)" and oks: "list_all succeeded rs"
    by simp_all
  have "execute_plan_loop ag (plan @ []) [] c = execute_plan_loop ag [] ([] @ rs) c1"
    using pre oks by (rule execute_plan_loop_prefix)
  then show "execute_plan ag plan c = (Inr rs, c1)"
    by (simp add: execute_plan_def)
qed

theorem execute_plan_short_circuit_witness:
  "execute_each the_agents [credit_p001] demo_coordinator = (Inr [credit_result], after_credit)
   \<and> list_all succeeded [credit_result]
   \<and> execute_action the_agents load_too_much after_credit = (Inr load_refusal, after_refusal)
   \<and> \<not> succeeded load_refusal
   \<and> execute_plan the_agents ([credit_p001] @ load_too_much # [move_agv002]) demo_coordinator
       = (Inr ([credit_result] @ [load_refusal]), after_refusal)
   \<and> length (action_history after_refusal) = 4
   \<and> map_option agv_location (get_agv (agv_manager (the_warehouse after_refusal)) ''AGV002'')
       = Some ''storage_a''
   \<and> map_option quantity (get_item (inventory_manager (the_warehouse after_refusal)) ''P001'')
       = Some 60
   \<and> execute_plan the_agents [credit_p001] demo_coordinator = (Inr [credit_result], after_credit)"
proof -
  have pre: "execute_each the_agents [credit_p001] demo_coordinator
      = (Inr [credit_result], after_credit)"
    by code_simp
  have oks: "list_all succeeded [credit_result]"
    by code_simp
  have step: "execute_action the_agents load_too_much after_credit
      = (Inr load_refusal, after_refusal)"
    by code_simp
  have failed: "\<not> succeeded load_refusal"
    by code_simp
  from execute_plan_short_circuit [of the_agents "[credit_p001]" demo_coordinator
      "[credit_result]" after_credit load_too_much load_refusal after_refusal "[move_agv002]"
      "[credit_p001]"]
    pre oks step failed
  have plan: "execute_plan the_agents ([credit_p001] @ load_too_much # [move_agv002])
        demo_coordinator = (Inr ([credit_result] @ [load_refusal]), after_refusal)"
    and whole: "execute_plan the_agents [credit_p001] demo_coordinator
        = (Inr [credit_result], after_credit)"
    by blast+
  have journal: "length (action_history after_refusal) = 4"
    by code_simp
  have unmoved: "map_option agv_location
      (get_agv (agv_manager (the_warehouse after_refusal)) ''AGV002'') = Some ''storage_a''"
    by code_simp
  have kept: "map_option quantity
      (get_item (inventory_manager (the_warehouse after_refusal)) ''P001'') = Some 60"
    by code_simp
  from pre oks step failed plan journal unmoved kept whole show ?thesis by blast
qed

section \<open>The action journal\<close>

lemma execute_action_typed:
  "truthy (act_type act) \<noteq> None \<Longrightarrow> dispatch ag act (the_warehouse c) = (Inr res, w') \<Longrightarrow>
   execute_action ag act c =
     (Inr res,
      c\<lparr>the_warehouse := w',
        action_history := map (refresh_entry (agv_manager w')) (action_history c)
          @ [ActionEntry (clock c) act, ResultEntry (Suc (clock c)) act res],
        clock := Suc (Suc (clock c))\<rparr>)"
  by (auto simp: execute_action_def log_action_def log_result_def Let_def)

lemma execute_action_raise:
  "truthy (act_type act) \<noteq> None \<Longrightarrow> dispatch ag act (the_warehouse c) = (Inl e, w') \<Longrightarrow>
   execute_action ag act c =
     (Inl e,
      c\<lparr>the_warehouse := w',
        action_history := map (refresh_entry (agv_manager w')) (action_history c)
          @ [ActionEntry (clock c) act],
        clock := Suc (clock c)\<rparr>)"
  by (auto simp: execute_action_def log_action_def log_result_def Let_def)

lemma execute_action_untyped:
  "truthy (act_type act) = None \<Longrightarrow>
   execute_action ag act c = (Inr (failure (VStr ''No action type specified'')), c)"
  by (simp add: execute_action_def)

text \<open>A fresh reading changes the content of the load dicts referred to, and nothing
  else.\<close>

lemma blank_refresh_val: "blank_val (refresh_val agvs v) = blank_val v"
  by (induction agvs v rule: refresh_val.induct) auto

lemma blank_refresh_entry: "blank_entry (refresh_entry agvs e) = blank_entry e"
  by (cases e) (auto simp: blank_refresh_val)

lemma blank_refresh_journal:
  "map blank_entry (map (refresh_entry agvs) es) = map blank_entry es"
  by (simp add: blank_refresh_entry)

lemma execute_action_grows:
  "\<exists>new. map blank_entry (action_history (snd (execute_action ag act c)))
     = map blank_entry (action_history c) @ new"
proof (cases "truthy (act_type act)")
  case None
  then show ?thesis by (simp add: execute_action_untyped)
next
  case (Some t)
  obtain r w' where d: "dispatch ag act (the_warehouse c) = (r, w')"
    by (cases "dispatch ag act (the_warehouse c)")
  show ?thesis
  proof (cases r)
    case (Inl e)
    with Some d show ?thesis
      by (simp add: execute_action_raise blank_refresh_entry)
  next
    case (Inr res)
    with Some d show ?thesis
      by (simp add: execute_action_typed blank_refresh_entry)
  qed
qed

lemma execute_plan_loop_grows:
  "\<exists>new. map blank_entry (action_history (snd (execute_plan_loop ag plan acc c)))
     = map blank_entry (action_history c) @ new"
proof (induction plan arbitrary: acc c)
  case Nil
  then show ?case by simp
next
  case (Cons act plan)
  obtain r c' where step: "execute_action ag act c = (r, c')"
    by (cases "execute_action ag act c")
  from execute_action_grows [of ag act c] step
  obtain new1 where h1: "map blank_entry (action_history c')
      = map blank_entry (action_history c) @ new1"
    by auto
  show ?case
  proof (cases r)
    case (Inl e)
    with step h1 show ?thesis by simp
  next
    case (Inr res)
    show ?thesis
    proof (cases "succeeded res")
      case False
      with Inr step h1 show ?thesis by simp
    next
      case True
      from Cons.IH [of "acc @ [res]" c']
      obtain new2 where "map blank_entry (action_history (snd (execute_plan_loop ag plan (acc @ [res]) c')))
          = map blank_entry (action_history c') @ new2"
        by auto
      with True Inr step h1 show ?thesis by simp
    qed
  qed
qed

text \<open>
  C9, as the claim states it, fails twice. An action without a type is not journaled:
  \<open>execute_action\<close> returns its failure before anything is appended, and the check of
  P001 that names no type leaves the journal of the demo coordinator empty. And an entry
  in the journal can change: the result of \<open>get_available_agvs\<close> holds the load dicts
  of the AGVs themselves, so once AGV002 has loaded 20 units of P002 the result entry
  appended before shows them.
\<close>

theorem execute_action_untyped_not_journaled:
  "truthy (act_type untyped_check) = None
   \<and> fst (execute_action the_agents untyped_check demo_coordinator)
       = Inr (failure (VStr ''No action type specified''))
   \<and> action_history (snd (execute_action the_agents untyped_check demo_coordinator)) = []
   \<and> length (action_history after_listing) = 2
   \<and> length (action_history after_listing_and_load) = 4
   \<and> take 2 (action_history after_listing_and_load) \<noteq> action_history after_listing"
  by code_simp

text \<open>
  C9, amended. For every action with a non-empty type whose handler returns a result,
  \<open>execute_action\<close> appends exactly two entries to the action journal, the action entry
  and after it the result entry, and returns that result; an action whose type is absent
  or empty gets a failure result and no journal entry. No call of \<open>execute_action\<close> or
  \<open>execute_plan\<close> removes or reorders an entry that is already in the journal, and what
  such an entry holds of its own (all but the content of the AGV load dicts that its
  result refers to) stays as it was.
\<close>

theorem execute_action_journal_entries:
  "(truthy (act_type act) \<noteq> None \<and> dispatch ag act (the_warehouse c) = (Inr res, w') \<longrightarrow>
      execute_action ag act c =
        (Inr res,
         c\<lparr>the_warehouse := w',
           action_history := map (refresh_entry (agv_manager w')) (action_history c)
             @ [ActionEntry (clock c) act, ResultEntry (Suc (clock c)) act res],
           clock := Suc (Suc (clock c))\<rparr>))
   \<and> (truthy (act_type act) = None \<longrightarrow>
        execute_action ag act c = (Inr (failure (VStr ''No action type specified'')), c))
   \<and> (\<exists>new. map blank_entry (action_history (snd (execute_action ag act c)))
          = map blank_entry (action_history c) @ new)
   \<and> (\<exists>new. map blank_entry (action_history (snd (execute_plan ag plan c)))
          = map blank_entry (action_history c) @ new)"
proof (intro conjI impI)
  assume "truthy (act_type act) \<noteq> None \<and> dispatch ag act (the_warehouse c) = (Inr res, w')"
  then show "execute_action ag act c =
        (Inr res,
         c\<lparr>the_warehouse := w',
           action_history := map (refresh_entry (agv_manager w')) (action_history c)
             @ [ActionEntry (clock c) act, ResultEntry (Suc (clock c)) act res],
           clock := Suc (Suc (clock c))\<rparr>)"
    by (simp add: execute_action_typed)
next
  assume "truthy (act_type act) = None"
  then show "execute_action ag act c = (Inr (failure (VStr ''No action type specified'')), c)"
    by (rule execute_action_untyped)
next
  show "\<exists>new. map blank_entry (action_history (snd (execute_action ag act c)))
          = map blank_entry (action_history c) @ new"
    by (rule execute_action_grows)
next
  show "\<exists>new. map blank_entry (action_history (snd (execute_plan ag plan c)))
          = map blank_entry (action_history c) @ new"
    unfolding execute_plan_def by (rule execute_plan_loop_grows)
qed

theorem execute_action_journal_entries_witness:
  "truthy (act_type credit_p001) \<noteq> None
   \<and> dispatch the_agents credit_p001 (the_warehouse demo_coordinator)
       = (Inr credit_result, the_warehouse after_credit)
   \<and> execute_action the_agents credit_p001 demo_coordinator
       = (Inr credit_result,
          demo_coordinator\<lparr>the_warehouse := the_warehouse after_credit,
            action_history := [ActionEntry 0 credit_p001, ResultEntry 1 credit_p001 credit_result],
            clock := 2\<rparr>)
   \<and> truthy (act_type untyped_check) = None
   \<and> execute_action the_agents untyped_check after_credit
       = (Inr (failure (VStr ''No action type specified'')), after_credit)
   \<and> action_history after_refusal
       = action_history after_credit
         @ [ActionEntry 2 load_too_much, ResultEntry 3 load_too_much load_refusal]
   \<and> map blank_entry (take 2 (action_history after_listing_and_load))
       = map blank_entry (action_history after_listing)"
proof -
  have typed: "truthy (act_type credit_p001) \<noteq> None"
    by (simp add: credit_p001_def empty_action_def)
  have d: "dispatch the_agents credit_p001 (the_warehouse demo_coordinator)
       = (Inr credit_result, the_warehouse after_credit)"
    by code_simp
  have h0: "action_history demo_coordinator = []" and c0: "clock demo_coordinator = 0"
    by (simp_all add: demo_coordinator_def)
  from execute_action_journal_entries [of credit_p001 the_agents demo_coordinator credit_result
      "the_warehouse after_credit"] typed d
  have e1: "execute_action the_agents credit_p001 demo_coordinator
       = (Inr credit_result,
          demo_coordinator\<lparr>the_warehouse := the_warehouse after_credit,
            action_history := [ActionEntry 0 credit_p001, ResultEntry 1 credit_p001 credit_result],
            clock := 2\<rparr>)"
    by (simp add: h0 c0 numeral_2_eq_2)
  have untyped: "truthy (act_type untyped_check) = None"
    by (simp add: untyped_check_def empty_action_def)
  from execute_action_journal_entries [of untyped_check the_agents after_credit] untyped
  have e2: "execute_action the_agents untyped_check after_credit
       = (Inr (failure (VStr ''No action type specified'')), after_credit)"
    by blast
  have e3: "action_history after_refusal
       = action_history after_credit
         @ [ActionEntry 2 load_too_much, ResultEntry 3 load_too_much load_refusal]"
    by code_simp
  have e4: "map blank_entry (take 2 (action_history after_listing_and_load))
       = map blank_entry (action_history after_listing)"
    by code_simp
  from typed d e1 untyped e2 e3 e4 show ?thesis by blast
qed

end
